theory Spec2Isabelle
  imports Complex_Main "HOL-Library.Char_ord" "HOL-Library.List_Lexorder"
begin

section \<open>JavaScript values used by \<open>static/js/app.js\<close>\<close>

text \<open>
  A JavaScript number is an IEEE 754 double. \<open>Num q\<close> is the finite double whose value is
  the rational \<open>q\<close> (\<open>Num 0\<close> is \<open>+0\<close>); the other values are \<open>-0\<close>, the two
  infinities and \<open>NaN\<close>.
\<close>

datatype jsnum = Num rat | NegZero | PosInfinity | NegInfinity | NaN

text \<open>The sign bit, the finite values and the value of a finite number.\<close>

fun js_neg :: "jsnum \<Rightarrow> bool" where
  "js_neg (Num q) = (q < 0)"
| "js_neg NegZero = True"
| "js_neg NegInfinity = True"
| "js_neg PosInfinity = False"
| "js_neg NaN = False"

fun js_finite :: "jsnum \<Rightarrow> bool" where
  "js_finite (Num q) = True"
| "js_finite NegZero = True"
| "js_finite x = False"

fun js_value :: "jsnum \<Rightarrow> rat" where
  "js_value (Num q) = q"
| "js_value x = 0"

definition js_zero :: "jsnum \<Rightarrow> bool" where
  "js_zero x = (x = Num 0 \<or> x = NegZero)"

definition js_infinite :: "jsnum \<Rightarrow> bool" where
  "js_infinite x = (x = PosInfinity \<or> x = NegInfinity)"

definition signed_infinity :: "bool \<Rightarrow> jsnum" where
  "signed_infinity neg = (if neg then NegInfinity else PosInfinity)"

definition signed_zero :: "bool \<Rightarrow> jsnum" where
  "signed_zero neg = (if neg then NegZero else Num 0)"

subsection \<open>Rounding to double precision\<close>

text \<open>The number of binary digits of a natural number.\<close>

fun bitlen :: "nat \<Rightarrow> nat" where
  "bitlen n = (if n = 0 then 0 else Suc (bitlen (n div 2)))"

declare bitlen.simps [simp del]

definition pow2 :: "int \<Rightarrow> rat" where
  "pow2 k = (if 0 \<le> k then 2 ^ nat k else 1 / 2 ^ nat (- k))"

text \<open>The binary exponent of a positive rational: \<open>pow2 e \<le> m < pow2 (e + 1)\<close>.\<close>

definition ilog2 :: "rat \<Rightarrow> int" where
  "ilog2 m = (if 1 \<le> m then int (bitlen (nat \<lfloor>m\<rfloor>)) - 1
              else - int (bitlen (nat (\<lceil>1 / m\<rceil> - 1))))"

text \<open>The nearest integer, a tie going to the even one.\<close>

definition round_half_even :: "rat \<Rightarrow> int" where
  "round_half_even r =
     (let f = \<lfloor>r\<rfloor>; d = r - of_int f
      in if d < 1 / 2 then f
         else if 1 / 2 < d then f + 1
         else if even f then f else f + 1)"

text \<open>
  A magnitude rounded to 53 significant bits, or to a multiple of \<open>2^-1074\<close> below the
  normal range (round to nearest, ties to even).
\<close>

definition round_mag :: "rat \<Rightarrow> rat" where
  "round_mag m =
     (if m = 0 then 0
      else (let e = max (ilog2 m) (- 1022); q = pow2 (e - 52)
            in of_int (round_half_even (m / q)) * q))"

text \<open>
  The double that an operation returns whose exact result has sign \<open>neg\<close> and magnitude
  \<open>m\<close>: a rounded magnitude of \<open>2^1024\<close> or more overflows to an infinity, and one of
  zero keeps the sign.
\<close>

definition fl :: "bool \<Rightarrow> rat \<Rightarrow> jsnum" where
  "fl neg m =
     (let r = round_mag m
      in if pow2 1024 \<le> r then signed_infinity neg
         else if r = 0 then signed_zero neg
         else Num (if neg then - r else r))"

text \<open>
  The rationals that are values of finite doubles: rounding leaves the magnitude as it is,
  and the magnitude is below \<open>2^1024\<close>.
\<close>

definition representable :: "rat \<Rightarrow> bool" where
  "representable q = (round_mag \<bar>q\<bar> = \<bar>q\<bar> \<and> \<bar>q\<bar> < pow2 1024)"

text \<open>The doubles next to 10 are \<open>10 - 2^-49\<close> and \<open>10 + 2^-49\<close>.\<close>

definition near_ten :: "jsnum set" where
  "near_ten = {Num (10 - 1 / 2 ^ 49), Num 10, Num (10 + 1 / 2 ^ 49)}"

subsection \<open>Arithmetic\<close>

text \<open>\<open>a * b\<close>.\<close>

definition js_mul :: "jsnum \<Rightarrow> jsnum \<Rightarrow> jsnum" where
  "js_mul a b =
     (if a = NaN \<or> b = NaN then NaN
      else if js_infinite a \<or> js_infinite b
      then (if js_zero a \<or> js_zero b then NaN else signed_infinity (js_neg a \<noteq> js_neg b))
      else fl (js_neg a \<noteq> js_neg b) (\<bar>js_value a\<bar> * \<bar>js_value b\<bar>))"

text \<open>\<open>a / b\<close>.\<close>

definition js_div :: "jsnum \<Rightarrow> jsnum \<Rightarrow> jsnum" where
  "js_div a b =
     (if a = NaN \<or> b = NaN then NaN
      else if js_infinite a
      then (if js_infinite b then NaN else signed_infinity (js_neg a \<noteq> js_neg b))
      else if js_infinite b then signed_zero (js_neg a \<noteq> js_neg b)
      else if js_zero b
      then (if js_zero a then NaN else signed_infinity (js_neg a \<noteq> js_neg b))
      else fl (js_neg a \<noteq> js_neg b) (\<bar>js_value a\<bar> / \<bar>js_value b\<bar>))"

text \<open>\<open>a < b\<close>; every comparison with \<open>NaN\<close> is false, and the two zeros are equal.\<close>

definition js_lt :: "jsnum \<Rightarrow> jsnum \<Rightarrow> bool" where
  "js_lt a b =
     (if a = NaN \<or> b = NaN then False
      else if a = NegInfinity then b \<noteq> NegInfinity
      else if b = PosInfinity then a \<noteq> PosInfinity
      else if a = PosInfinity \<or> b = NegInfinity then False
      else js_value a < js_value b)"

text \<open>
  \<open>Math.max(...xs)\<close> starts from \<open>-Infinity\<close> and takes one argument after the other: a
  \<open>NaN\<close> makes the result \<open>NaN\<close>, \<open>+0\<close> replaces \<open>-0\<close>, and a larger number replaces
  the highest so far.
\<close>

definition js_max2 :: "jsnum \<Rightarrow> jsnum \<Rightarrow> jsnum" where
  "js_max2 highest x =
     (if highest = NaN \<or> x = NaN then NaN
      else if highest = NegZero \<and> x = Num 0 then Num 0
      else if js_lt highest x then x
      else highest)"

definition Math_max :: "jsnum list \<Rightarrow> jsnum" where
  "Math_max xs = fold (\<lambda>x highest. js_max2 highest x) xs NegInfinity"

subsection \<open>\<open>Map\<close> and \<open>Set\<close>\<close>

text \<open>
  A \<open>Map\<close> keeps its entries in insertion order with one entry per key, a \<open>Set\<close> its
  members in insertion order without repetition. Both are lists, so that iteration
  (\<open>forEach\<close>, \<open>Array.from\<close>) has the order the program sees.
\<close>

type_synonym ('k, 'v) jsmap = "('k \<times> 'v) list"

definition Map_has :: "('k, 'v) jsmap \<Rightarrow> 'k \<Rightarrow> bool" where
  "Map_has m k = (k \<in> set (map fst m))"

definition Map_get :: "('k, 'v) jsmap \<Rightarrow> 'k \<Rightarrow> 'v option" where
  "Map_get m k = map_of m k"

primrec Map_set :: "('k, 'v) jsmap \<Rightarrow> 'k \<Rightarrow> 'v \<Rightarrow> ('k, 'v) jsmap" where
  "Map_set [] k v = [(k, v)]"
| "Map_set (e # m) k v = (if fst e = k then (k, v) # m else e # Map_set m k v)"

definition Map_delete :: "('k, 'v) jsmap \<Rightarrow> 'k \<Rightarrow> ('k, 'v) jsmap" where
  "Map_delete m k = filter (\<lambda>e. fst e \<noteq> k) m"

definition Map_size :: "('k, 'v) jsmap \<Rightarrow> nat" where
  "Map_size m = length m"

type_synonym 'a jsset = "'a list"

definition Set_has :: "'a jsset \<Rightarrow> 'a \<Rightarrow> bool" where
  "Set_has s x = (x \<in> set s)"

definition Set_add :: "'a jsset \<Rightarrow> 'a \<Rightarrow> 'a jsset" where
  "Set_add s x = (if x \<in> set s then s else s @ [x])"

definition Set_delete :: "'a jsset \<Rightarrow> 'a \<Rightarrow> 'a jsset" where
  "Set_delete s x = removeAll x s"

definition Set_size :: "'a jsset \<Rightarrow> nat" where
  "Set_size s = length s"

subsection \<open>Strings\<close>

text \<open>
  A character is a code unit below 256. Of these, \<open>String.prototype.trim\<close> removes the
  tab, the line terminators, the vertical tab, the form feed, the space and the
  no-break space.
\<close>

definition is_whitespace :: "char \<Rightarrow> bool" where
  "is_whitespace c = (of_char c \<in> {9, 10, 11, 12, 13, 32, 160 :: nat})"

definition trim :: "string \<Rightarrow> string" where
  "trim s = rev (dropWhile is_whitespace (rev (dropWhile is_whitespace s)))"

text \<open>\<open>s.split(',')\<close>: the pieces between the commas, one more than there are commas.\<close>

fun split_comma :: "string \<Rightarrow> string list" where
  "split_comma [] = [[]]"
| "split_comma (c # cs) =
     (if c = CHR '','' then [] # split_comma cs
      else (case split_comma cs of
              [] \<Rightarrow> [[c]]
            | p # ps \<Rightarrow> (c # p) # ps))"

text \<open>
  A template literal prints an integer id in decimal (ids are far below \<open>10^21\<close>, where
  JavaScript changes to exponent notation).
\<close>

definition digit_char :: "nat \<Rightarrow> char" where
  "digit_char d = char_of (48 + d)"

fun string_of_nat :: "nat \<Rightarrow> string" where
  "string_of_nat n =
     (if n < 10 then [digit_char n] else string_of_nat (n div 10) @ [digit_char (n mod 10)])"

declare string_of_nat.simps [simp del]

section \<open>Program state\<close>

record restaurant =
  rest_id :: nat
  name :: string
  cuisine :: string
  price :: nat

datatype dayof_type = restaurant_type | cuisine_type

text \<open>The \<open>id\<close> of a day-of rating is a restaurant's number or a cuisine's name.\<close>

datatype dayof_id = IdNum nat | IdStr string

record dayof_rating =
  rtype :: dayof_type
  rid :: dayof_id
  rating :: jsnum

datatype screen = create | list | matching_screen

text \<open>
  One entry of the server's answer: \<open>match[0]\<close> (shown as the title), \<open>match[1]\<close> (the
  cuisine label) and \<open>match[2]\<close>, the raw group score, a number read from JSON.
\<close>

type_synonym match = "string \<times> string \<times> jsnum"

definition score :: "match \<Rightarrow> jsnum" where
  "score m = snd (snd m)"

record match_card =
  rank :: nat
  title :: string
  shown_rating :: jsnum
  scoreClass :: string
  scoreColor :: string

text \<open>
  What \<open>#matchingResults\<close> holds: nothing written yet, an \<open>empty-state\<close> message, or the
  cards. A card keeps the number \<open>rating\<close> that \<open>toFixed(2)\<close> formats.
\<close>

datatype results_html = Unrendered | EmptyState string | MatchCards "match_card list"

text \<open>Entries of the \<open>user_ratings\<close> payload posted to \<open>/api/matching\<close>.\<close>

datatype rating_entry =
    RestaurantEntry dayof_id jsnum   \<comment> \<open>\<open>{restaurant_id, rating}\<close>\<close>
  | CuisineEntry dayof_id jsnum      \<comment> \<open>\<open>{cuisine, rating}\<close>\<close>

record user_rating =
  user_id :: int
  ratings :: "rating_entry list"

datatype request = MatchingRequest "user_rating list"

text \<open>
  The globals of the script, the parts of the page that the properties below read (the alert boxes
  and \<open>#matchingResults\<close>) and the requests sent so far. The grids and lists that the
  \<open>render...\<close> functions rewrite are computed from the globals and read by no function, so
  they are not part of the state. \<open>showAlert\<close> clears its box five seconds later; the state
  records the message as it is set.
\<close>

record app_state =
  restaurantRatings :: "(nat, jsnum) jsmap"
  cuisineRatings :: "(string, jsnum) jsmap"
  dayofRatingsByUser :: "(int, (string, dayof_rating) jsmap) jsmap"
  selectedUsers :: "int jsset"
  currentScreen :: screen
  allRestaurants :: "restaurant list"
  allCuisines :: "string list"
  lastSelectedUser :: int
  matching :: "match list option"
  alerts :: "string \<Rightarrow> (string \<times> string) option"
  matchingResults :: results_html
  requests :: "request list"

definition initial_state :: app_state where
  "initial_state =
     \<lparr> restaurantRatings = [], cuisineRatings = [], dayofRatingsByUser = [],
       selectedUsers = [], currentScreen = create, allRestaurants = [], allCuisines = [],
       lastSelectedUser = - 1, matching = Some [], alerts = (\<lambda>_. None),
       matchingResults = Unrendered, requests = [] \<rparr>"

definition showAlert :: "string \<Rightarrow> string \<Rightarrow> string \<Rightarrow> app_state \<Rightarrow> app_state" where
  "showAlert elementId message type st =
     st\<lparr>alerts := (alerts st)(elementId \<mapsto> (message, type))\<rparr>"

section \<open>Rendering the match list\<close>

definition match_card_of :: "jsnum \<Rightarrow> nat \<Rightarrow> match \<Rightarrow> match_card" where
  "match_card_of currMax index m =
     (let r = js_div (js_mul (Num 10) (score m)) currMax in
      \<lparr> rank = index + 1,
        title = fst m,
        shown_rating = r,
        scoreClass = (if js_lt r (Num 5) then ''score-low''
                      else if js_lt r (Num 7) then ''score-medium'' else ''score-high''),
        scoreColor = (if js_lt r (Num 5) then ''#dc3545''
                      else if js_lt r (Num 7) then ''#ffc107'' else ''#28a745'') \<rparr>)"

text \<open>
  \<open>matching\<close> is \<open>None\<close> for a \<open>null\<close> answer. Every card is a non-empty string, so
  \<open>filter(Boolean)\<close> keeps all of them and the joined \<open>html\<close> is empty only without cards.
\<close>

definition renderMatchingList :: "app_state \<Rightarrow> app_state" where
  "renderMatchingList st =
     (case matching st of
        None \<Rightarrow> st\<lparr>matchingResults := EmptyState ''No matching restaurants found''\<rparr>
      | Some ms \<Rightarrow>
          if length ms = 0
          then st\<lparr>matchingResults := EmptyState ''No matching restaurants found''\<rparr>
          else
            (let currMax = Math_max (map score ms);
                 cards = map (\<lambda>(index, m). match_card_of currMax index m)
                             (zip [0 ..< length ms] ms)
             in if cards = []
                then st\<lparr>matchingResults := EmptyState ''No valid restaurants found''\<rparr>
                else st\<lparr>matchingResults := MatchCards cards\<rparr>))"

text \<open>
  The largest raw group score of a result list of finite scores, as the specification
  names it.
\<close>

definition maxGroupScore :: "match list \<Rightarrow> rat" where
  "maxGroupScore ms = Max (set (map (\<lambda>m. js_value (score m)) ms))"

section \<open>Cuisines and base preferences\<close>

text \<open>
  \<open>extractCuisines\<close>: both \<open>forEach\<close> loops are folds over the set built so far, and
  \<open>add_restaurant_tags\<close> is the body of the outer one. The default \<open>sort()\<close> orders
  strings by their code units.
\<close>

definition add_restaurant_tags :: "string jsset \<Rightarrow> restaurant \<Rightarrow> string jsset" where
  "add_restaurant_tags cuisineSet r =
     (let cuisines = map trim (split_comma (cuisine r))
      in foldl (\<lambda>s c. if c \<noteq> [] then Set_add s c else s) cuisineSet cuisines)"

definition extractCuisines :: "app_state \<Rightarrow> app_state" where
  "extractCuisines st =
     (let cuisineSet = foldl add_restaurant_tags [] (allRestaurants st)
      in st\<lparr>allCuisines := sort cuisineSet\<rparr>)"

text \<open>
  The cuisine tags of a catalog in the specification's words: the comma-separated pieces
  of every restaurant's cuisine string, trimmed, without the empty ones.
\<close>

definition cuisine_tags :: "restaurant list \<Rightarrow> string set" where
  "cuisine_tags rs =
     {t. \<exists>r \<in> set rs. \<exists>p \<in> set (split_comma (cuisine r)). t = trim p \<and> t \<noteq> []}"

definition toggleCuisine :: "string \<Rightarrow> app_state \<Rightarrow> app_state" where
  "toggleCuisine c st =
     (if Map_has (cuisineRatings st) c
      then st\<lparr>cuisineRatings := Map_delete (cuisineRatings st) c\<rparr>
      else st\<lparr>cuisineRatings := Map_set (cuisineRatings st) c (Num 5)\<rparr>)"

definition toggleRestaurant :: "nat \<Rightarrow> app_state \<Rightarrow> app_state" where
  "toggleRestaurant i st =
     (if Map_has (restaurantRatings st) i
      then st\<lparr>restaurantRatings := Map_delete (restaurantRatings st) i\<rparr>
      else st\<lparr>restaurantRatings := Map_set (restaurantRatings st) i (Num 5)\<rparr>)"

section \<open>Selecting users\<close>

definition toggleUser :: "int \<Rightarrow> app_state \<Rightarrow> app_state" where
  "toggleUser i st =
     (if Set_has (selectedUsers st) i
      then st\<lparr>selectedUsers := Set_delete (selectedUsers st) i, lastSelectedUser := - 1\<rparr>
      else st\<lparr>selectedUsers := Set_add (selectedUsers st) i, lastSelectedUser := i\<rparr>)"

definition deselectAllUsers :: "app_state \<Rightarrow> app_state" where
  "deselectAllUsers st = st\<lparr>selectedUsers := [], lastSelectedUser := - 1\<rparr>"

section \<open>Day-of ratings\<close>

text \<open>
  The inner maps and the rating objects are created by these functions only, one per user
  and one per key, so no two entries share an object and the nested maps are values. A
  change made through the looked-up inner map is written back at the user's entry.
  The toggles assign the looked-up map to an undeclared variable \<open>dayofRatings\<close>; it is
  read only inside the same call and is a local of the model.
\<close>

definition removeDayofRating :: "string \<Rightarrow> app_state \<Rightarrow> app_state" where
  "removeDayofRating key st =
     (if \<not> Map_has (dayofRatingsByUser st) (lastSelectedUser st) then st
      else (case Map_get (dayofRatingsByUser st) (lastSelectedUser st) of
              None \<Rightarrow> st
            | Some dayofRatings \<Rightarrow>
                st\<lparr>dayofRatingsByUser :=
                     Map_set (dayofRatingsByUser st) (lastSelectedUser st)
                             (Map_delete dayofRatings key)\<rparr>))"

text \<open>\<open>v\<close> is the number that \<open>parseFloat\<close> reads from the slider's value.\<close>

definition updateDayofRating :: "string \<Rightarrow> jsnum \<Rightarrow> app_state \<Rightarrow> app_state" where
  "updateDayofRating key v st =
     (if \<not> Map_has (dayofRatingsByUser st) (lastSelectedUser st) then st
      else (case Map_get (dayofRatingsByUser st) (lastSelectedUser st) of
              None \<Rightarrow> st
            | Some dayofRatings \<Rightarrow>
                (case Map_get dayofRatings key of
                   None \<Rightarrow> st
                 | Some r \<Rightarrow>
                     st\<lparr>dayofRatingsByUser :=
                          Map_set (dayofRatingsByUser st) (lastSelectedUser st)
                                  (Map_set dayofRatings key (r\<lparr>rating := v\<rparr>))\<rparr>)))"

text \<open>
  Both toggles create the user's map when it is missing, then remove the key, refuse a
  fourth entry, or add a new rating object. When the map was just created the lookup
  cannot come back empty-handed; that branch of the model returns the state as it is.
\<close>

definition toggleDayofCuisine :: "string \<Rightarrow> app_state \<Rightarrow> app_state" where
  "toggleDayofCuisine c st =
     (let key = ''c-'' @ c;
          st1 = (if \<not> Map_has (dayofRatingsByUser st) (lastSelectedUser st)
                 then st\<lparr>dayofRatingsByUser :=
                           Map_set (dayofRatingsByUser st) (lastSelectedUser st) []\<rparr>
                 else st)
      in case Map_get (dayofRatingsByUser st1) (lastSelectedUser st1) of
           None \<Rightarrow> st1
         | Some dayofRatings \<Rightarrow>
             if Map_has dayofRatings key then removeDayofRating key st1
             else if Map_size dayofRatings \<ge> 3
             then showAlert ''dayofAlert'' ''Maximum 3 day-of ratings allowed!'' ''warning'' st1
             else st1\<lparr>dayofRatingsByUser :=
                        Map_set (dayofRatingsByUser st1) (lastSelectedUser st1)
                                (Map_set dayofRatings key
                                   \<lparr>rtype = cuisine_type, rid = IdStr c, rating = Num 5\<rparr>)\<rparr>)"

definition toggleDayofRestaurant :: "nat \<Rightarrow> app_state \<Rightarrow> app_state" where
  "toggleDayofRestaurant i st =
     (let key = ''r-'' @ string_of_nat i;
          st1 = (if \<not> Map_has (dayofRatingsByUser st) (lastSelectedUser st)
                 then st\<lparr>dayofRatingsByUser :=
                           Map_set (dayofRatingsByUser st) (lastSelectedUser st) []\<rparr>
                 else st)
      in case Map_get (dayofRatingsByUser st1) (lastSelectedUser st1) of
           None \<Rightarrow> st1
         | Some dayofRatings \<Rightarrow>
             if Map_has dayofRatings key then removeDayofRating key st1
             else if Map_size dayofRatings \<ge> 3
             then showAlert ''dayofAlert'' ''Maximum 3 day-of ratings allowed!'' ''warning'' st1
             else st1\<lparr>dayofRatingsByUser :=
                        Map_set (dayofRatingsByUser st1) (lastSelectedUser st1)
                                (Map_set dayofRatings key
                                   \<lparr>rtype = restaurant_type, rid = IdNum i, rating = Num 5\<rparr>)\<rparr>)"

text \<open>
  The two toggles differ in the key and in the rating object they add. \<open>toggleDayof\<close> is
  their common form, with both as parameters; the proofs about the toggles go through it.
\<close>

definition toggleDayof :: "string \<Rightarrow> dayof_rating \<Rightarrow> app_state \<Rightarrow> app_state" where
  "toggleDayof key fresh st =
     (let st1 = (if \<not> Map_has (dayofRatingsByUser st) (lastSelectedUser st)
                 then st\<lparr>dayofRatingsByUser :=
                           Map_set (dayofRatingsByUser st) (lastSelectedUser st) []\<rparr>
                 else st)
      in case Map_get (dayofRatingsByUser st1) (lastSelectedUser st1) of
           None \<Rightarrow> st1
         | Some dayofRatings \<Rightarrow>
             if Map_has dayofRatings key then removeDayofRating key st1
             else if Map_size dayofRatings \<ge> 3
             then showAlert ''dayofAlert'' ''Maximum 3 day-of ratings allowed!'' ''warning'' st1
             else st1\<lparr>dayofRatingsByUser :=
                        Map_set (dayofRatingsByUser st1) (lastSelectedUser st1)
                                (Map_set dayofRatings key fresh)\<rparr>)"

section \<open>Requesting a match\<close>

text \<open>
  \<open>switchScreen\<close> looks at the truthiness of its argument only. On the way from the create
  screen to the list it starts \<open>loadUsers\<close>, whose answer arrives as a later event.
\<close>

definition switchScreen :: "bool \<Rightarrow> app_state \<Rightarrow> app_state" where
  "switchScreen newScreen st =
     (if newScreen then st\<lparr>currentScreen := matching_screen\<rparr>
      else if currentScreen st = create then st\<lparr>currentScreen := list\<rparr>
      else st\<lparr>currentScreen := create, restaurantRatings := [], cuisineRatings := [],
              selectedUsers := []\<rparr>)"

text \<open>
  What \<open>fetch\<close> and the reading of the body can do: reject with an error that carries a
  message, answer with a status that is not ok and a body whose \<open>error\<close> field may be
  absent, or answer ok with the parsed body (\<open>None\<close> for \<open>null\<close>).
\<close>

datatype response = Rejected string | NotOk "string option" | Ok "match list option"

text \<open>\<open>a || b\<close> on strings: the empty string is falsy.\<close>

definition or_else :: "string \<Rightarrow> string \<Rightarrow> string" where
  "or_else a b = (if a = [] then b else a)"

definition push_rating :: "rating_entry list \<Rightarrow> string \<times> dayof_rating \<Rightarrow> rating_entry list" where
  "push_rating rs e =
     (case rtype (snd e) of
        restaurant_type \<Rightarrow> rs @ [RestaurantEntry (rid (snd e)) (rating (snd e))]
      | cuisine_type \<Rightarrow> rs @ [CuisineEntry (rid (snd e)) (rating (snd e))])"

definition build_user_rating :: "app_state \<Rightarrow> int \<Rightarrow> user_rating" where
  "build_user_rating st userId =
     \<lparr> user_id = userId,
       ratings =
         (if Map_has (dayofRatingsByUser st) userId
          then (case Map_get (dayofRatingsByUser st) userId of
                  None \<Rightarrow> []
                | Some dayofRatings \<Rightarrow> foldl push_rating [] dayofRatings)
          else []) \<rparr>"

text \<open>
  \<open>callMagic\<close>, with the server as the function \<open>fetch\<close> from the request to what comes
  back. Every request sent is appended to \<open>requests\<close>.
\<close>

definition callMagic :: "(request \<Rightarrow> response) \<Rightarrow> app_state \<Rightarrow> app_state" where
  "callMagic fetch st =
     (if Set_size (selectedUsers st) < 2
      then showAlert ''listAlert'' ''Please select at least 2 users to generate matches''
                     ''error'' st
      else
        (let userIds = selectedUsers st;
             userRatings = map (build_user_rating st) userIds;
             st1 = showAlert ''listAlert'' ''Generating matches...'' ''success'' st;
             st2 = st1\<lparr>requests := requests st1 @ [MatchingRequest userRatings]\<rparr>
         in case fetch (MatchingRequest userRatings) of
              Rejected message \<Rightarrow>
                showAlert ''listAlert'' (or_else message ''Error generating matches'')
                          ''error'' st2
            | NotOk err \<Rightarrow>
                (let message = or_else (case err of None \<Rightarrow> [] | Some e \<Rightarrow> e)
                                       ''Failed to generate matches''
                 in showAlert ''listAlert'' (or_else message ''Error generating matches'')
                              ''error'' st2)
            | Ok body \<Rightarrow>
                renderMatchingList (switchScreen True (st2\<lparr>matching := body\<rparr>))))"

text \<open>
  The override list of a day-of map in the specification's words: one entry per day-of
  rating, a restaurant-keyed one as restaurant id and rating, a cuisine-keyed one as
  cuisine and rating.
\<close>

definition override_ratings :: "(string, dayof_rating) jsmap \<Rightarrow> rating_entry list" where
  "override_ratings d =
     map (\<lambda>(key, r). if rtype r = restaurant_type
                      then RestaurantEntry (rid r) (rating r)
                      else CuisineEntry (rid r) (rating r)) d"

section \<open>The matching engine\<close>

text \<open>
  Modelled from the spec: the preference resolver, the group aggregator and the ranker
  run on the server, whose code is not among the sources; only their caller
  \<open>callMagic\<close> is.

  Resolver, step 1: an override list that was supplied, even an empty one, is the
  effective preference set; without one the stored base preferences are.
\<close>

definition effective_preferences ::
  "rating_entry list option \<Rightarrow> rating_entry list \<Rightarrow> rating_entry list" where
  "effective_preferences override base =
     (case override of Some rs \<Rightarrow> rs | None \<Rightarrow> base)"

text \<open>
  Modelled from the spec: a user's effective score for a restaurant may be absent; the
  contributors of a restaurant are the users whose score is present.
\<close>

definition contributing :: "rat option list \<Rightarrow> rat list" where
  "contributing effs = List.map_filter (\<lambda>e. e) effs"

text \<open>
  Modelled from the spec: the aggregator multiplies the contributors' scores one after the
  other; a restaurant without a contributor has no group score.
\<close>

definition groupScore :: "rat option list \<Rightarrow> rat option" where
  "groupScore effs =
     (case contributing effs of
        [] \<Rightarrow> None
      | s # ss \<Rightarrow> Some (foldl (\<lambda>acc x. acc * x) s ss))"

text \<open>
  Modelled from the spec: only the restaurants with at least one contributor get a group
  score and reach the ranker.
\<close>

definition aggregate :: "(nat \<times> rat option list) list \<Rightarrow> (nat \<times> rat) list" where
  "aggregate rs = List.map_filter (\<lambda>(i, effs). map_option (Pair i) (groupScore effs)) rs"

text \<open>
  Modelled from the spec: the ranker orders by group score descending and breaks ties by
  restaurant id ascending.
\<close>

definition ranks_before :: "nat \<times> rat \<Rightarrow> nat \<times> rat \<Rightarrow> bool" where
  "ranks_before a b = (snd a > snd b \<or> (snd a = snd b \<and> fst a \<le> fst b))"

text \<open>
  Modelled from the spec: the ranker's sort, as insertion into the ranked list.
\<close>

fun rank_insert :: "nat \<times> rat \<Rightarrow> (nat \<times> rat) list \<Rightarrow> (nat \<times> rat) list" where
  "rank_insert a [] = [a]"
| "rank_insert a (b # bs) = (if ranks_before a b then a # b # bs else b # rank_insert a bs)"

text \<open>
  Modelled from the spec: the ranked list is built by inserting every scored restaurant.
\<close>

definition ranked :: "(nat \<times> rat) list \<Rightarrow> (nat \<times> rat) list" where
  "ranked rs = foldr rank_insert rs []"

text \<open>
  Modelled from the spec: the answer to a match request is the ranking of the aggregated
  scores.
\<close>

definition match_ranking :: "(nat \<times> rat option list) list \<Rightarrow> (nat \<times> rat) list" where
  "match_ranking rs = ranked (aggregate rs)"

section \<open>Display scores\<close>

subsection \<open>Evaluating the arithmetic\<close>

lemma floor_rat_numeral_div:
  "\<lfloor>(numeral a / numeral b :: rat)\<rfloor> = numeral a div numeral b"
  by (metis floor_divide_of_int_eq of_int_numeral)

lemma floor_rat_one_div:
  "\<lfloor>(1 / numeral b :: rat)\<rfloor> = 1 div numeral b"
  by (metis floor_divide_of_int_eq of_int_numeral of_int_1)

lemma ceiling_rat_numeral_div:
  "\<lceil>(numeral a / numeral b :: rat)\<rceil> = - ((- numeral a) div numeral b)"
  unfolding ceiling_def
  by (metis floor_divide_of_int_eq of_int_numeral of_int_minus minus_divide_left)

lemmas fl_eval =
  fl_def round_mag_def ilog2_def pow2_def round_half_even_def bitlen.simps Let_def
  signed_infinity_def signed_zero_def
  floor_rat_numeral_div floor_rat_one_div ceiling_rat_numeral_div

lemmas js_arith_eval = js_mul_def js_div_def js_infinite_def js_zero_def

lemma fl_ten: "fl False 10 = Num 10"
  by (simp add: fl_eval)

lemma fl_not_NaN: "fl neg m \<noteq> NaN"
  by (simp add: fl_def Let_def signed_infinity_def signed_zero_def)

lemma js_mul_ten_not_NaN: "js_finite x \<Longrightarrow> js_mul (Num 10) x \<noteq> NaN"
  by (cases x) (simp_all add: js_mul_def js_infinite_def fl_not_NaN)

lemma js_div_not_NaN: "x \<noteq> NaN \<Longrightarrow> b \<noteq> 0 \<Longrightarrow> js_div x (Num b) \<noteq> NaN"
  by (simp add: js_div_def js_infinite_def js_zero_def fl_not_NaN signed_infinity_def)

lemma js_div_ten_times:
  assumes "b \<noteq> 0"
  shows "js_div (Num (10 * b)) (Num b) = Num 10"
proof -
  have "\<bar>10 * b\<bar> / \<bar>b\<bar> = 10" using assms by (simp add: abs_mult)
  moreover have "(10 * b < 0) = (b < 0)" by (simp add: mult_less_0_iff)
  ultimately show ?thesis
    using assms by (simp add: js_div_def js_infinite_def js_zero_def fl_ten)
qed

subsection \<open>The exponent and the rounding error\<close>

lemma pow2_powi: "pow2 k = 2 powi k"
  by (simp add: pow2_def power_int_def power_one_over inverse_eq_divide)

lemma pow2_pos: "0 < pow2 k"
  by (simp add: pow2_powi zero_less_power_int)

lemma pow2_add: "pow2 (a + b) = pow2 a * pow2 b"
  by (simp add: pow2_powi power_int_add)

lemma pow2_nat: "pow2 (int n) = 2 ^ n"
  by (simp add: pow2_def)

lemma pow2_neg_nat: "pow2 (- int n) = 1 / 2 ^ n"
  by (cases "n = 0") (simp_all add: pow2_def)

lemma pow2_mono: "a \<le> b \<Longrightarrow> pow2 a \<le> pow2 b"
  by (simp add: pow2_powi power_int_increasing)

lemma pow2_less_cancel: "pow2 a < pow2 b \<Longrightarrow> a < b"
  using pow2_mono [of b a] by (cases "a < b") (simp_all add: not_less)

lemma bitlen_bounds: "0 < n \<Longrightarrow> 2 ^ (bitlen n - 1) \<le> n \<and> n < 2 ^ bitlen n"
proof (induction n rule: bitlen.induct)
  case (1 n)
  show ?case
  proof (cases "n div 2 = 0")
    case True
    with "1.prems" have "n = 1" by (simp add: div_eq_0_iff)
    then show ?thesis by (simp add: bitlen.simps)
  next
    case False
    with "1.IH" "1.prems" have ih: "2 ^ (bitlen (n div 2) - 1) \<le> n div 2"
      "n div 2 < 2 ^ bitlen (n div 2)" by simp_all
    have b: "bitlen n = Suc (bitlen (n div 2))" using "1.prems" by (simp add: bitlen.simps)
    have pos: "0 < bitlen (n div 2)" using False by (simp add: bitlen.simps)
    have "2 ^ (bitlen n - 1) = 2 * 2 ^ (bitlen (n div 2) - 1)"
      using pos by (simp add: b power_Suc [symmetric] del: power_Suc)
    also have "\<dots> \<le> 2 * (n div 2)" using ih(1) by simp
    also have "\<dots> \<le> n" by simp
    finally have lo: "2 ^ (bitlen n - 1) \<le> n" .
    have "n < 2 * (n div 2) + 2" by arith
    also have "\<dots> \<le> 2 * 2 ^ bitlen (n div 2)" using ih(2) by simp
    finally have hi: "n < 2 ^ bitlen n" by (simp add: b)
    from lo hi show ?thesis ..
  qed
qed

lemma bitlen_pos: "0 < n \<Longrightarrow> 0 < bitlen n"
  by (simp add: bitlen.simps)

lemma ilog2_bounds:
  assumes "0 < y"
  shows "pow2 (ilog2 y) \<le> y \<and> y < pow2 (ilog2 y + 1)"
proof (cases "1 \<le> y")
  case True
  define n where "n = nat \<lfloor>y\<rfloor>"
  have fl1: "1 \<le> \<lfloor>y\<rfloor>" using True by (simp add: le_floor_iff)
  then have n: "0 < n" "of_nat n \<le> y" "y < of_nat n + 1"
    unfolding n_def by (simp_all, linarith+)
  from bitlen_bounds [OF n(1)] have b: "2 ^ (bitlen n - 1) \<le> n" "n < 2 ^ bitlen n" by simp_all
  have i: "ilog2 y = int (bitlen n - 1)"
    using True bitlen_pos [OF n(1)] by (simp add: ilog2_def n_def)
  have "pow2 (ilog2 y) = of_nat (2 ^ (bitlen n - 1))"
    by (simp add: i pow2_nat)
  also have "\<dots> \<le> of_nat n" using b(1) by (simp only: of_nat_le_iff)
  finally have lo: "pow2 (ilog2 y) \<le> y" using n(2) by simp
  have "ilog2 y + 1 = int (bitlen n)"
    using bitlen_pos [OF n(1)] by (simp add: i)
  then have "pow2 (ilog2 y + 1) = of_nat (2 ^ bitlen n)" by (simp add: pow2_nat)
  moreover have "Suc n \<le> 2 ^ bitlen n" using b(2) by simp
  then have "(of_nat (Suc n) :: rat) \<le> of_nat (2 ^ bitlen n)" by (simp only: of_nat_le_iff)
  then have "of_nat n + 1 \<le> (of_nat (2 ^ bitlen n) :: rat)" by simp
  ultimately have hi: "y < pow2 (ilog2 y + 1)" using n(3) by simp
  from lo hi show ?thesis ..
next
  case False
  define c where "c = \<lceil>1 / y\<rceil>"
  define k where "k = nat (c - 1)"
  have z: "1 < 1 / y" using False assms by simp
  then have c2: "2 \<le> c" unfolding c_def by (simp add: le_ceiling_iff)
  have cz: "of_int c - 1 < 1 / y" "1 / y \<le> of_int c"
    unfolding c_def by (simp_all add: ceiling_correct)
  have k: "0 < k" "of_nat k = (of_int c - 1 :: rat)"
    using c2 unfolding k_def by simp_all
  from bitlen_bounds [OF k(1)] have b: "2 ^ (bitlen k - 1) \<le> k" "k < 2 ^ bitlen k" by simp_all
  have i: "ilog2 y = - int (bitlen k)"
    using False by (simp add: ilog2_def k_def c_def)
  have "Suc k \<le> 2 ^ bitlen k" using b(2) by simp
  then have "(of_nat (Suc k) :: rat) \<le> of_nat (2 ^ bitlen k)" by (simp only: of_nat_le_iff)
  then have "of_int c \<le> (2 ^ bitlen k :: rat)" using k(2) by simp
  with cz(2) have "1 / y \<le> 2 ^ bitlen k" by (rule order_trans)
  then have "1 \<le> 2 ^ bitlen k * y" using assms by (simp add: pos_divide_le_eq)
  then have lo: "pow2 (ilog2 y) \<le> y"
    by (simp add: i pow2_neg_nat pos_divide_le_eq mult.commute)
  have "(of_nat (2 ^ (bitlen k - 1)) :: rat) \<le> of_nat k" using b(1) by (simp only: of_nat_le_iff)
  then have "(2 ^ (bitlen k - 1) :: rat) \<le> of_int c - 1" using k(2) by simp
  then have "2 ^ (bitlen k - 1) < 1 / y" using cz(1) by (rule le_less_trans)
  then have "2 ^ (bitlen k - 1) * y < 1" using assms by (simp add: pos_less_divide_eq)
  moreover have "ilog2 y + 1 = - int (bitlen k - 1)"
    using bitlen_pos [OF k(1)] by (simp add: i)
  ultimately have hi: "y < pow2 (ilog2 y + 1)"
    by (simp add: pow2_neg_nat pos_less_divide_eq mult.commute)
  from lo hi show ?thesis ..
qed

lemma ilog2_unique:
  assumes "0 < y" "pow2 k \<le> y" "y < pow2 (k + 1)"
  shows "ilog2 y = k"
proof -
  from ilog2_bounds [OF assms(1)]
  have b: "pow2 (ilog2 y) \<le> y" "y < pow2 (ilog2 y + 1)" by simp_all
  have "pow2 k < pow2 (ilog2 y + 1)" using assms(2) b(2) by simp
  then have "k < ilog2 y + 1" by (rule pow2_less_cancel)
  moreover have "pow2 (ilog2 y) < pow2 (k + 1)" using assms(3) b(1) by simp
  then have "ilog2 y < k + 1" by (rule pow2_less_cancel)
  ultimately show ?thesis by simp
qed

lemma rhe_cases: "round_half_even r = \<lfloor>r\<rfloor> \<or> round_half_even r = \<lfloor>r\<rfloor> + 1"
  by (simp add: round_half_even_def Let_def)

lemma rhe_error: "\<bar>of_int (round_half_even r) - r\<bar> \<le> 1 / 2"
proof -
  have f: "of_int \<lfloor>r\<rfloor> \<le> r" "r < of_int \<lfloor>r\<rfloor> + 1" by linarith+
  show ?thesis
    using f by (auto simp: round_half_even_def Let_def)
qed

lemma round_mag_normal:
  assumes "pow2 (- 1022) \<le> y"
  shows "\<bar>round_mag y - y\<bar> \<le> y / 2 ^ 53"
proof -
  have y: "0 < y" using assms pow2_pos [of "- 1022"] by linarith
  define e where "e = ilog2 y"
  define q where "q = pow2 (e - 52)"
  from ilog2_bounds [OF y] have b: "pow2 e \<le> y" "y < pow2 (e + 1)" by (simp_all add: e_def)
  have "pow2 (- 1022) < pow2 (e + 1)" using assms b(2) by simp
  then have "- 1022 < e + 1" by (rule pow2_less_cancel)
  then have m: "max e (- 1022) = e" by simp
  have q: "0 < q" by (simp add: q_def pow2_pos)
  have rm: "round_mag y = of_int (round_half_even (y / q)) * q"
    using y m by (simp add: round_mag_def Let_def e_def [symmetric] q_def)
  have "\<bar>of_int (round_half_even (y / q)) - y / q\<bar> * q \<le> 1 / 2 * q"
    using rhe_error [of "y / q"] q by (intro mult_right_mono) simp_all
  moreover have "(of_int (round_half_even (y / q)) - y / q) * q
      = of_int (round_half_even (y / q)) * q - y"
    using q by (simp add: left_diff_distrib)
  then have "\<bar>of_int (round_half_even (y / q)) - y / q\<bar> * q
      = \<bar>of_int (round_half_even (y / q)) * q - y\<bar>"
    using q by (metis abs_mult abs_of_pos)
  ultimately have err: "\<bar>round_mag y - y\<bar> \<le> q / 2" by (simp add: rm)
  have "e - 52 = e + (- 52)" by simp
  then have "q = pow2 e * pow2 (- 52)" unfolding q_def by (simp only: pow2_add)
  then have "q / 2 = pow2 e / 2 ^ 53" by (simp add: pow2_def)
  also have "\<dots> \<le> y / 2 ^ 53" using b(1) by (simp add: divide_right_mono)
  finally show ?thesis using err by linarith
qed

lemma round_mag_near_ten:
  assumes "\<bar>x - 10\<bar> \<le> 10 / 2 ^ 53"
  shows "round_mag x \<in> {10 - 1 / 2 ^ 49, 10, 10 + 1 / 2 ^ 49}"
proof -
  have "(10 / 2 ^ 53 :: rat) \<le> 1" by simp
  with assms have "\<bar>x - 10\<bar> \<le> 1" by linarith
  then have x: "8 \<le> x" "x < 16" "0 < x" by linarith+
  have "ilog2 x = 3"
    using x by (intro ilog2_unique) (simp_all add: pow2_def)
  then have rm: "round_mag x = of_int (round_half_even (x * 2 ^ 49)) / 2 ^ 49"
    using x by (simp add: round_mag_def Let_def pow2_def)
  define r where "r = x * 2 ^ 49"
  have "\<bar>x - 10\<bar> * 2 ^ 49 \<le> 10 / 2 ^ 53 * 2 ^ 49"
    using assms by (intro mult_right_mono) simp_all
  moreover have "(10 / 2 ^ 53 * 2 ^ 49 :: rat) = 5 / 8" by simp
  moreover have "r - 5629499534213120 = (x - 10) * 2 ^ 49"
    by (simp add: r_def left_diff_distrib)
  then have "\<bar>r - 5629499534213120\<bar> = \<bar>x - 10\<bar> * 2 ^ 49"
    by (simp only: abs_mult) simp
  ultimately have "\<bar>r - 5629499534213120\<bar> \<le> 5 / 8"
    by (simp only:)
  then have "5629499534213119 \<le> r" "r < 5629499534213121"
    by linarith+
  then have "5629499534213119 \<le> \<lfloor>r\<rfloor>" "\<lfloor>r\<rfloor> < 5629499534213121"
    by simp_all
  then have "\<lfloor>r\<rfloor> = 5629499534213119 \<or> \<lfloor>r\<rfloor> = 5629499534213120"
    by arith
  with rhe_cases [of r]
  have "round_half_even r \<in> {5629499534213119, 5629499534213120, 5629499534213121}"
    by auto
  then show ?thesis
    unfolding rm r_def [symmetric] by auto
qed

lemma top_rating_near_ten:
  assumes "b \<noteq> 0" and "pow2 (- 1022) \<le> 10 * \<bar>b\<bar>"
    and "js_finite (js_mul (Num 10) (Num b))"
  shows "js_div (js_mul (Num 10) (Num b)) (Num b)
           \<in> {Num (10 - 1 / 2 ^ 49), Num 10, Num (10 + 1 / 2 ^ 49)}"
proof -
  define m where "m = \<bar>b\<bar>"
  define p where "p = round_mag (10 * m)"
  have m: "0 < m" using assms(1) by (simp add: m_def)
  have err: "\<bar>p - 10 * m\<bar> \<le> 10 * m / 2 ^ 53"
    unfolding p_def using assms(2) by (intro round_mag_normal) (simp add: m_def)
  have "10 * m / 2 ^ 53 < 10 * m" using m by simp
  with err have "\<bar>p - 10 * m\<bar> < 10 * m" by linarith
  then have p: "0 < p" by linarith
  have mul: "js_mul (Num 10) (Num b) = fl (b < 0) (10 * m)"
    by (simp add: js_mul_def js_infinite_def m_def)
  have no_overflow: "\<not> pow2 1024 \<le> p"
    using assms(3) unfolding mul
    by (auto simp: fl_def Let_def p_def [symmetric] signed_infinity_def split: if_splits)
  have prod: "js_mul (Num 10) (Num b) = Num (if b < 0 then - p else p)"
    unfolding mul using no_overflow p by (simp add: fl_def Let_def p_def [symmetric])
  have quot: "js_div (js_mul (Num 10) (Num b)) (Num b) = fl False (p / m)"
    unfolding prod using assms(1) p
    by (simp add: js_div_def js_infinite_def js_zero_def m_def)
  have "p / m - 10 = (p - 10 * m) / m"
    using m by (simp add: diff_divide_distrib)
  then have "\<bar>p / m - 10\<bar> = \<bar>p - 10 * m\<bar> / m"
    using m by (simp only: abs_divide abs_of_pos)
  also have "\<dots> \<le> (10 * m / 2 ^ 53) / m"
    by (rule divide_right_mono [OF err]) (use m in simp)
  also have "\<dots> = 10 / 2 ^ 53" using m by simp
  finally have "round_mag (p / m) \<in> {10 - 1 / 2 ^ 49, 10, 10 + 1 / 2 ^ 49}"
    by (rule round_mag_near_ten)
  then show ?thesis
    unfolding quot by (auto simp: fl_def Let_def pow2_def)
qed

lemma rhe_of_int: "round_half_even (of_int k) = k"
  by (simp add: round_half_even_def)

lemma round_mag_subnormal:
  assumes "0 < y" "y < pow2 (- 1022)"
  shows "round_mag y = of_int (round_half_even (y / pow2 (- 1074))) * pow2 (- 1074)"
proof -
  from ilog2_bounds [OF assms(1)] have "pow2 (ilog2 y) \<le> y" by simp
  with assms(2) have "pow2 (ilog2 y) < pow2 (- 1022)" by simp
  then have "ilog2 y < - 1022" by (rule pow2_less_cancel)
  then have "max (ilog2 y) (- 1022) = - 1022" by simp
  then show ?thesis using assms(1) by (simp add: round_mag_def Let_def)
qed

lemma times_ten_exact_subnormal:
  assumes "0 < m" "10 * m < pow2 (- 1022)" "round_mag m = m"
  shows "round_mag (10 * m) = 10 * m"
proof -
  let ?q = "pow2 (- 1074)"
  have q: "0 < ?q" by (rule pow2_pos)
  define k where "k = round_half_even (m / ?q)"
  have "m < pow2 (- 1022)" using assms(1,2) by linarith
  with assms(1) have "round_mag m = of_int k * ?q"
    unfolding k_def by (rule round_mag_subnormal)
  with assms(3) have m: "m = of_int k * ?q" by simp
  have "10 * m / ?q = of_int (10 * k)"
    using q by (simp add: m)
  then have "round_half_even (10 * m / ?q) = 10 * k"
    by (simp only: rhe_of_int)
  moreover have "round_mag (10 * m)
      = of_int (round_half_even (10 * m / ?q)) * ?q"
    using assms(1,2) by (intro round_mag_subnormal) simp_all
  ultimately show ?thesis by (simp add: m)
qed

lemma top_rating_near_ten_representable:
  assumes "b \<noteq> 0" and "representable b"
    and "js_finite (js_mul (Num 10) (Num b))"
  shows "js_div (js_mul (Num 10) (Num b)) (Num b) \<in> near_ten"
proof (cases "pow2 (- 1022) \<le> 10 * \<bar>b\<bar>")
  case True
  with assms(1) show ?thesis
    unfolding near_ten_def using assms(3) by (rule top_rating_near_ten)
next
  case False
  have m: "0 < \<bar>b\<bar>" using assms(1) by simp
  have small: "10 * \<bar>b\<bar> < pow2 (- 1022)" using False by simp
  have r: "round_mag \<bar>b\<bar> = \<bar>b\<bar>" using assms(2) by (simp add: representable_def)
  have e: "round_mag (10 * \<bar>b\<bar>) = 10 * \<bar>b\<bar>"
    using m small r by (rule times_ten_exact_subnormal)
  have "pow2 (- 1022) \<le> pow2 1024" by (rule pow2_mono) simp
  with small have no: "\<not> pow2 1024 \<le> 10 * \<bar>b\<bar>" by simp
  have "js_mul (Num 10) (Num b) = fl (b < 0) (10 * \<bar>b\<bar>)"
    by (simp add: js_mul_def js_infinite_def)
  also have "\<dots> = Num (10 * b)"
    using no m by (simp add: fl_def Let_def e)
  finally have "js_div (js_mul (Num 10) (Num b)) (Num b) = Num 10"
    using assms(1) by (simp add: js_div_ten_times)
  then show ?thesis by (simp add: near_ten_def)
qed

subsection \<open>The maximum of finite scores\<close>

lemma js_max2_finite:
  assumes "js_finite a" "js_finite x"
  shows "js_finite (js_max2 a x) \<and> js_value (js_max2 a x) = max (js_value x) (js_value a)"
  using assms by (cases a; cases x) (auto simp: js_max2_def js_lt_def max_def)

lemma fold_js_max2:
  assumes "js_finite a" "\<forall>x \<in> set xs. js_finite x"
  shows "js_finite (fold (\<lambda>x highest. js_max2 highest x) xs a)
       \<and> js_value (fold (\<lambda>x highest. js_max2 highest x) xs a)
           = fold max (map js_value xs) (js_value a)"
  using assms
proof (induction xs arbitrary: a)
  case Nil
  then show ?case by simp
next
  case (Cons x xs)
  from Cons.prems have fx: "js_finite x" and fxs: "\<forall>y \<in> set xs. js_finite y" by simp_all
  from js_max2_finite [OF Cons.prems(1) fx]
  have f: "js_finite (js_max2 a x)"
    and v: "js_value (js_max2 a x) = max (js_value x) (js_value a)" by simp_all
  from Cons.IH [OF f fxs] v show ?case by simp
qed

lemma Math_max_finite:
  assumes "xs \<noteq> []" "\<forall>x \<in> set xs. js_finite x"
  shows "js_finite (Math_max xs) \<and> js_value (Math_max xs) = Max (set (map js_value xs))"
proof (cases xs)
  case Nil
  with assms show ?thesis by simp
next
  case (Cons x ys)
  with assms have fx: "js_finite x" and fys: "\<forall>y \<in> set ys. js_finite y" by simp_all
  have first: "js_max2 NegInfinity x = x"
    using fx by (cases x) (simp_all add: js_max2_def js_lt_def)
  have "Math_max xs = fold (\<lambda>x highest. js_max2 highest x) ys x"
    by (simp add: Cons Math_max_def first)
  moreover have "fold max (map js_value ys) (js_value x) = Max (set (map js_value xs))"
    unfolding Cons by (simp only: list.map Max.set_eq_fold)
  ultimately show ?thesis using fold_js_max2 [OF fx fys] by simp
qed

lemma finite_nonzero_Num: "js_finite x \<Longrightarrow> js_value x \<noteq> 0 \<Longrightarrow> x = Num (js_value x)"
  by (cases x) simp_all

lemma Math_max_Num:
  assumes "ms \<noteq> []" "\<forall>m \<in> set ms. js_finite (score m)" "maxGroupScore ms \<noteq> 0"
  shows "Math_max (map score ms) = Num (maxGroupScore ms)"
proof -
  have "js_finite (Math_max (map score ms))
      \<and> js_value (Math_max (map score ms)) = Max (set (map js_value (map score ms)))"
    using assms(1,2) by (intro Math_max_finite) simp_all
  moreover have "Max (set (map js_value (map score ms))) = maxGroupScore ms"
    by (simp add: maxGroupScore_def comp_def)
  ultimately show ?thesis using assms(3) finite_nonzero_Num by metis
qed

lemma render_cards:
  assumes "matching st = Some ms" "ms \<noteq> []"
  shows "matchingResults (renderMatchingList st) =
           MatchCards (map (\<lambda>(index, m). match_card_of (Math_max (map score ms)) index m)
                           (zip [0 ..< length ms] ms))"
  using assms by (simp add: renderMatchingList_def Let_def)

lemma card_rating:
  "shown_rating (match_card_of currMax i m) = js_div (js_mul (Num 10) (score m)) currMax"
  by (simp add: match_card_of_def Let_def)

lemma sorted_desc_hd_Max:
  assumes "sorted_wrt (\<lambda>a b. js_value b \<le> js_value a) xs" "xs \<noteq> []"
  shows "js_value (hd xs) = Max (set (map js_value xs))"
proof (cases xs)
  case Nil with assms show ?thesis by simp
next
  case (Cons x ys)
  with assms have "\<forall>y \<in> set ys. js_value y \<le> js_value x" by simp
  then have "Max (set (map js_value (x # ys))) = js_value x"
    by (intro Max_eqI) auto
  with Cons show ?thesis by simp
qed

subsection \<open>Concrete scores\<close>

text \<open>
  Integer scores whose tenfold is exact; a zero maximum; the double \<open>1.87\<close>, the product
  of the ratings \<open>1.1\<close> and \<open>1.7\<close>, whose tenfold is rounded; a maximum of \<open>2^1023\<close>,
  whose tenfold overflows; and scores \<open>1.47\<close> and \<open>2.1\<close>, whose quotient is rounded below
  7 and so into the middle colour band.
\<close>

lemma mul_ten_7776: "js_mul (Num 10) (Num 7776) = Num 77760"
  by (simp add: js_arith_eval fl_eval)

lemma rating_6561_7776: "js_div (js_mul (Num 10) (Num 6561)) (Num 7776) = Num (135 / 16)"
  by (simp add: js_arith_eval fl_eval)

lemma rating_zero_zero: "js_div (js_mul (Num 10) (Num 0)) (Num 0) = NaN"
  by (simp add: js_arith_eval fl_eval)

lemma rating_187:
  "js_div (js_mul (Num 10) (Num (2105432825795707 / 1125899906842624)))
          (Num (2105432825795707 / 1125899906842624))
     = Num (5629499534213121 / 562949953421312)"
  by (simp add: js_arith_eval fl_eval)

lemma Math_max_single: "Math_max [Num q] = Num q"
  by (simp add: Math_max_def js_max2_def js_lt_def)

lemma representable_7776: "representable 7776"
  by (simp add: representable_def fl_eval)

lemma overflow_example:
  "js_div (js_mul (Num 10) (Num (pow2 1023))) (Num (pow2 1023)) = PosInfinity"
  by (simp add: js_arith_eval fl_eval)

lemma Math_max_two_zeros: "Math_max [Num 0, Num 0] = Num 0"
  by (simp add: Math_max_def js_max2_def js_lt_def)

lemma rating_147_21:
  "js_div (js_mul (Num 10) (Num (6620291452234629 / 4503599627370496)))
          (Num (4728779608739021 / 2251799813685248))
     = Num (7881299347898367 / 1125899906842624)
   \<and> js_lt (Num (7881299347898367 / 1125899906842624)) (Num 7)"
  by (simp add: js_arith_eval fl_eval js_lt_def)

subsection \<open>The rendered scores\<close>

text \<open>
  Claim C1, amended. For every non-empty match result list of finite scores whose largest
  raw group score is not zero, \<open>renderMatchingList\<close> shows one card per entry and the score
  on each card is \<open>10 * groupScore / maxGroupScore\<close> as double arithmetic computes it (the
  product rounded, then the quotient rounded). Every entry that holds the largest group
  score, which is the first entry when the list arrives ordered by descending group score,
  shows exactly 10 when \<open>10 * maxGroupScore\<close> is computed without rounding, and one of
  \<open>10 - 2^-49\<close>, \<open>10\<close>, \<open>10 + 2^-49\<close> whenever \<open>10 * maxGroupScore\<close> does not overflow
  (\<open>maxGroupScore\<close> being the value of a double, as every JavaScript number is).
\<close>

theorem display_score_normalized:
  assumes "matching st = Some ms" and "ms \<noteq> []"
    and "\<forall>m \<in> set ms. js_finite (score m)" and "maxGroupScore ms \<noteq> 0"
  shows "\<exists>cards. matchingResults (renderMatchingList st) = MatchCards cards
           \<and> length cards = length ms
           \<and> (\<forall>i < length ms.
                 shown_rating (cards ! i)
                   = js_div (js_mul (Num 10) (score (ms ! i))) (Num (maxGroupScore ms)))
           \<and> (\<forall>i < length ms. score (ms ! i) = Num (maxGroupScore ms) \<longrightarrow>
                 (js_mul (Num 10) (Num (maxGroupScore ms)) = Num (10 * maxGroupScore ms)
                    \<longrightarrow> shown_rating (cards ! i) = Num 10)
               \<and> (representable (maxGroupScore ms)
                    \<and> js_finite (js_mul (Num 10) (Num (maxGroupScore ms)))
                    \<longrightarrow> shown_rating (cards ! i) \<in> near_ten))
           \<and> (sorted_wrt (\<lambda>a b. js_value b \<le> js_value a) (map score ms) \<longrightarrow>
                 (js_mul (Num 10) (Num (maxGroupScore ms)) = Num (10 * maxGroupScore ms)
                    \<longrightarrow> shown_rating (hd cards) = Num 10)
               \<and> (representable (maxGroupScore ms)
                    \<and> js_finite (js_mul (Num 10) (Num (maxGroupScore ms)))
                    \<longrightarrow> shown_rating (hd cards) \<in> near_ten))"
proof -
  let ?b = "maxGroupScore ms"
  let ?cards = "map (\<lambda>(index, m). match_card_of (Num ?b) index m) (zip [0 ..< length ms] ms)"
  have cm: "Math_max (map score ms) = Num ?b"
    using assms(2,3,4) by (rule Math_max_Num)
  have r: "matchingResults (renderMatchingList st) = MatchCards ?cards"
    using render_cards [OF assms(1,2)] by (simp only: cm)
  have len: "length ?cards = length ms" by simp
  have each: "shown_rating (?cards ! i) = js_div (js_mul (Num 10) (score (ms ! i))) (Num ?b)"
    if "i < length ms" for i
    using that by (simp add: card_rating)
  have top: "shown_rating (?cards ! i) = js_div (js_mul (Num 10) (Num ?b)) (Num ?b)"
    if "i < length ms" and s: "score (ms ! i) = Num ?b" for i
    using each [OF that(1)] by (simp only: s)
  have exact: "js_div (js_mul (Num 10) (Num ?b)) (Num ?b) = Num 10"
    if e: "js_mul (Num 10) (Num ?b) = Num (10 * ?b)"
    unfolding e using assms(4) by (rule js_div_ten_times)
  have near: "js_div (js_mul (Num 10) (Num ?b)) (Num ?b) \<in> near_ten"
    if "representable ?b \<and> js_finite (js_mul (Num 10) (Num ?b))"
    using assms(4) that by (intro top_rating_near_ten_representable) simp_all
  have holders: "\<forall>i < length ms. score (ms ! i) = Num ?b \<longrightarrow>
                 (js_mul (Num 10) (Num ?b) = Num (10 * ?b) \<longrightarrow> shown_rating (?cards ! i) = Num 10)
               \<and> (representable ?b \<and> js_finite (js_mul (Num 10) (Num ?b))
                    \<longrightarrow> shown_rating (?cards ! i) \<in> near_ten)"
    using top exact near by simp
  have first: "(js_mul (Num 10) (Num ?b) = Num (10 * ?b) \<longrightarrow> shown_rating (hd ?cards) = Num 10)
               \<and> (representable ?b \<and> js_finite (js_mul (Num 10) (Num ?b))
                    \<longrightarrow> shown_rating (hd ?cards) \<in> near_ten)"
    if s: "sorted_wrt (\<lambda>a b. js_value b \<le> js_value a) (map score ms)"
  proof -
    have "js_value (hd (map score ms)) = Max (set (map js_value (map score ms)))"
      using s assms(2) by (intro sorted_desc_hd_Max) simp_all
    then have v: "js_value (score (ms ! 0)) = ?b"
      using assms(2) by (simp add: maxGroupScore_def hd_map hd_conv_nth comp_def)
    have l: "0 < length ms" using assms(2) by simp
    then have "js_finite (score (ms ! 0))" using assms(3) by simp
    with v assms(4) have "score (ms ! 0) = Num ?b"
      using finite_nonzero_Num by metis
    with l holders have
      "(js_mul (Num 10) (Num ?b) = Num (10 * ?b) \<longrightarrow> shown_rating (?cards ! 0) = Num 10)
       \<and> (representable ?b \<and> js_finite (js_mul (Num 10) (Num ?b))
            \<longrightarrow> shown_rating (?cards ! 0) \<in> near_ten)"
      by blast
    moreover have "?cards \<noteq> []" using assms(2) by simp
    then have "hd ?cards = ?cards ! 0" by (rule hd_conv_nth)
    ultimately show ?thesis by (simp only:)
  qed
  show ?thesis
    using r len each holders first by blast
qed

theorem display_score_normalized_witness:
  "\<exists>cards. matchingResults (renderMatchingList
       (initial_state\<lparr>matching :=
          Some [(''Luigi'', ''Italian'', Num 7776), (''Wok'', ''Chinese'', Num 6561)]\<rparr>))
         = MatchCards cards
     \<and> length cards = 2
     \<and> shown_rating (cards ! 0) = Num 10
     \<and> shown_rating (cards ! 1) = Num (135 / 16)
     \<and> shown_rating (hd cards) = Num 10
     \<and> shown_rating (hd cards) \<in> near_ten"
proof -
  let ?ms = "[(''Luigi'', ''Italian'', Num 7776), (''Wok'', ''Chinese'', Num 6561)] :: match list"
  let ?st = "initial_state\<lparr>matching := Some ?ms\<rparr>"
  have m: "maxGroupScore ?ms = 7776"
    by (simp add: maxGroupScore_def score_def)
  have h1: "matching ?st = Some ?ms" by simp
  have h2: "?ms \<noteq> []" by simp
  have h3: "\<forall>m \<in> set ?ms. js_finite (score m)" by (simp add: score_def)
  have h4: "maxGroupScore ?ms \<noteq> 0" by (simp add: m)
  have e: "js_mul (Num 10) (Num (maxGroupScore ?ms)) = Num (10 * maxGroupScore ?ms)"
    by (simp add: m mul_ten_7776)
  have p: "representable (maxGroupScore ?ms)
           \<and> js_finite (js_mul (Num 10) (Num (maxGroupScore ?ms)))"
    by (simp add: m mul_ten_7776 representable_7776)
  have s: "sorted_wrt (\<lambda>a b. js_value b \<le> js_value a) (map score ?ms)"
    by (simp add: score_def)
  have s0: "0 < length ?ms \<and> score (?ms ! 0) = Num (maxGroupScore ?ms)"
    by (simp add: m score_def)
  from display_score_normalized [OF h1 h2 h3 h4]
  obtain cards where c: "matchingResults (renderMatchingList ?st) = MatchCards cards"
      "length cards = length ?ms"
      "\<forall>i < length ?ms. shown_rating (cards ! i)
          = js_div (js_mul (Num 10) (score (?ms ! i))) (Num (maxGroupScore ?ms))"
      "\<forall>i < length ?ms. score (?ms ! i) = Num (maxGroupScore ?ms) \<longrightarrow>
         (js_mul (Num 10) (Num (maxGroupScore ?ms)) = Num (10 * maxGroupScore ?ms)
            \<longrightarrow> shown_rating (cards ! i) = Num 10)
         \<and> (representable (maxGroupScore ?ms)
              \<and> js_finite (js_mul (Num 10) (Num (maxGroupScore ?ms)))
              \<longrightarrow> shown_rating (cards ! i) \<in> near_ten)"
      "sorted_wrt (\<lambda>a b. js_value b \<le> js_value a) (map score ?ms) \<longrightarrow>
         (js_mul (Num 10) (Num (maxGroupScore ?ms)) = Num (10 * maxGroupScore ?ms)
            \<longrightarrow> shown_rating (hd cards) = Num 10)
         \<and> (representable (maxGroupScore ?ms)
              \<and> js_finite (js_mul (Num 10) (Num (maxGroupScore ?ms)))
              \<longrightarrow> shown_rating (hd cards) \<in> near_ten)"
    by blast
  from c(4) s0 e have r0: "shown_rating (cards ! 0) = Num 10" by blast
  from c(5) s e p have f: "shown_rating (hd cards) = Num 10"
    and n: "shown_rating (hd cards) \<in> near_ten" by blast+
  from c(3) have "shown_rating (cards ! 1)
      = js_div (js_mul (Num 10) (score (?ms ! 1))) (Num (maxGroupScore ?ms))" by simp
  then have r1: "shown_rating (cards ! 1) = Num (135 / 16)"
    by (simp add: m score_def rating_6561_7776)
  from c(1,2) r0 r1 f n show ?thesis by auto
qed

text \<open>
  As stated, for every non-empty list and with exactly 10, claim C1 fails in three ways.
  For the one-entry list whose group score is 0 the quotient is \<open>0 / 0\<close> and the card of the
  first restaurant shows \<open>NaN\<close>. For the score \<open>1.87\<close> the product \<open>10 * 1.87\<close> is rounded
  and the card shows \<open>10 + 2^-49\<close>, that is 10.000000000000002. For the score \<open>2^1023\<close> the
  product overflows and the card shows \<open>Infinity\<close>.
\<close>

theorem display_score_not_ten_counterexample:
  "matchingResults (renderMatchingList (initial_state\<lparr>matching := Some [(''A'', ''x'', Num 0)]\<rparr>))
     = MatchCards [\<lparr>rank = 1, title = ''A'', shown_rating = NaN,
                    scoreClass = ''score-high'', scoreColor = ''#28a745''\<rparr>]
   \<and> matchingResults (renderMatchingList (initial_state\<lparr>matching :=
         Some [(''A'', ''x'', Num (2105432825795707 / 1125899906842624))]\<rparr>))
     = MatchCards [\<lparr>rank = 1, title = ''A'',
                    shown_rating = Num (5629499534213121 / 562949953421312),
                    scoreClass = ''score-high'', scoreColor = ''#28a745''\<rparr>]
   \<and> matchingResults (renderMatchingList (initial_state\<lparr>matching :=
         Some [(''A'', ''x'', Num (pow2 1023))]\<rparr>))
     = MatchCards [\<lparr>rank = 1, title = ''A'', shown_rating = PosInfinity,
                    scoreClass = ''score-high'', scoreColor = ''#28a745''\<rparr>]"
  by (simp add: renderMatchingList_def match_card_of_def score_def Math_max_single
        rating_zero_zero rating_187 overflow_example js_lt_def Let_def)

text \<open>
  Claim C3, amended. \<open>renderMatchingList\<close> has no guard for a zero maximum: it shows the
  no-matches state exactly when the result list is absent or empty, and every non-empty
  list is shown as one card per entry. When the scores are finite and the largest is not
  zero, the divisor is not zero and no card shows \<open>NaN\<close>.
\<close>

theorem no_matches_state_only_for_empty:
  "((matchingResults (renderMatchingList st) = EmptyState ''No matching restaurants found'')
      \<longleftrightarrow> (matching st = None \<or> matching st = Some []))
   \<and> (\<forall>ms. matching st = Some ms \<and> ms \<noteq> [] \<longrightarrow>
         (\<exists>cards. matchingResults (renderMatchingList st) = MatchCards cards
            \<and> length cards = length ms
            \<and> ((\<forall>m \<in> set ms. js_finite (score m)) \<and> maxGroupScore ms \<noteq> 0
                  \<longrightarrow> (\<forall>c \<in> set cards. shown_rating c \<noteq> NaN))))"
proof (intro conjI allI impI)
  show "(matchingResults (renderMatchingList st) = EmptyState ''No matching restaurants found'')
      \<longleftrightarrow> (matching st = None \<or> matching st = Some [])"
  proof (cases "matching st")
    case None
    then show ?thesis by (simp add: renderMatchingList_def)
  next
    case (Some ms)
    show ?thesis
    proof (cases "ms = []")
      case True
      with Some show ?thesis by (simp add: renderMatchingList_def)
    next
      case False
      with Some show ?thesis by (simp add: render_cards)
    qed
  qed
next
  fix ms
  assume a: "matching st = Some ms \<and> ms \<noteq> []"
  let ?cm = "Math_max (map score ms)"
  let ?cards = "map (\<lambda>(index, m). match_card_of ?cm index m) (zip [0 ..< length ms] ms)"
  have r: "matchingResults (renderMatchingList st) = MatchCards ?cards"
    using a by (simp add: render_cards)
  have len: "length ?cards = length ms" by simp
  have nn: "\<forall>c \<in> set ?cards. shown_rating c \<noteq> NaN"
    if f: "\<forall>m \<in> set ms. js_finite (score m)" and nz: "maxGroupScore ms \<noteq> 0"
  proof
    fix c assume "c \<in> set ?cards"
    then obtain i m where c: "c = match_card_of ?cm i m" and m: "m \<in> set ms"
      by (auto dest: set_zip_rightD)
    have cm: "?cm = Num (maxGroupScore ms)"
      using a f nz by (intro Math_max_Num) simp_all
    have "js_mul (Num 10) (score m) \<noteq> NaN"
      using f m by (intro js_mul_ten_not_NaN) simp
    then have "js_div (js_mul (Num 10) (score m)) (Num (maxGroupScore ms)) \<noteq> NaN"
      using nz by (rule js_div_not_NaN)
    then show "shown_rating c \<noteq> NaN"
      by (simp add: c card_rating cm)
  qed
  from r len nn
  show "\<exists>cards. matchingResults (renderMatchingList st) = MatchCards cards
            \<and> length cards = length ms
            \<and> ((\<forall>m \<in> set ms. js_finite (score m)) \<and> maxGroupScore ms \<noteq> 0
                  \<longrightarrow> (\<forall>c \<in> set cards. shown_rating c \<noteq> NaN))"
    by blast
qed

theorem no_matches_state_only_for_empty_witness:
  "matchingResults (renderMatchingList
       (initial_state\<lparr>matching := Some [(''A'', ''x'', Num 5), (''B'', ''y'', Num 0)]\<rparr>))
     \<noteq> EmptyState ''No matching restaurants found''
   \<and> (\<exists>cards. matchingResults (renderMatchingList
       (initial_state\<lparr>matching := Some [(''A'', ''x'', Num 5), (''B'', ''y'', Num 0)]\<rparr>))
         = MatchCards cards
       \<and> length cards = 2
       \<and> (\<forall>c \<in> set cards. shown_rating c \<noteq> NaN))"
proof -
  let ?ms = "[(''A'', ''x'', Num 5), (''B'', ''y'', Num 0)] :: match list"
  let ?st = "initial_state\<lparr>matching := Some ?ms\<rparr>"
  have h: "matching ?st = Some ?ms \<and> ?ms \<noteq> []" by simp
  have f: "\<forall>m \<in> set ?ms. js_finite (score m)" by (simp add: score_def)
  have nz: "maxGroupScore ?ms \<noteq> 0" by (simp add: maxGroupScore_def score_def)
  note t = no_matches_state_only_for_empty [of ?st]
  from t have "matchingResults (renderMatchingList ?st)
                 = EmptyState ''No matching restaurants found''
               \<longleftrightarrow> (matching ?st = None \<or> matching ?st = Some [])"
    by (rule conjunct1)
  then have a: "matchingResults (renderMatchingList ?st)
                  \<noteq> EmptyState ''No matching restaurants found''"
    by simp
  from t h obtain cards where
    c: "matchingResults (renderMatchingList ?st) = MatchCards cards"
       "length cards = length ?ms"
       "(\<forall>m \<in> set ?ms. js_finite (score m)) \<and> maxGroupScore ?ms \<noteq> 0
          \<longrightarrow> (\<forall>c \<in> set cards. shown_rating c \<noteq> NaN)"
    by blast
  from c(3) f nz have "\<forall>c \<in> set cards. shown_rating c \<noteq> NaN" by blast
  with a c(1,2) show ?thesis by auto
qed

text \<open>
  As stated, claim C3 fails: a list of two restaurants whose group scores are both 0 is
  not shown as the no-matches state; both cards are rendered and their scores are the
  result of \<open>0 / 0\<close>.
\<close>

theorem all_zero_scores_not_no_matches_counterexample:
  "matchingResults (renderMatchingList
       (initial_state\<lparr>matching := Some [(''A'', ''x'', Num 0), (''B'', ''y'', Num 0)]\<rparr>))
     = MatchCards [\<lparr>rank = 1, title = ''A'', shown_rating = NaN,
                    scoreClass = ''score-high'', scoreColor = ''#28a745''\<rparr>,
                   \<lparr>rank = 2, title = ''B'', shown_rating = NaN,
                    scoreClass = ''score-high'', scoreColor = ''#28a745''\<rparr>]"
  by (simp add: renderMatchingList_def match_card_of_def score_def Math_max_two_zeros
        rating_zero_zero js_lt_def upt_rec Let_def)

section \<open>Maps\<close>

lemma Map_has_get: "Map_has m k \<longleftrightarrow> Map_get m k \<noteq> None"
  by (simp add: Map_has_def Map_get_def map_of_eq_None_iff)

lemma Map_get_set_same: "Map_get (Map_set m k v) k = Some v"
  by (induction m) (simp_all add: Map_get_def)

lemma Map_get_set_other: "k' \<noteq> k \<Longrightarrow> Map_get (Map_set m k v) k' = Map_get m k'"
  by (induction m) (auto simp: Map_get_def)

lemma Map_get_delete_same: "Map_get (Map_delete m k) k = None"
  by (induction m) (auto simp: Map_get_def Map_delete_def)

lemma Map_get_delete_other: "k' \<noteq> k \<Longrightarrow> Map_get (Map_delete m k) k' = Map_get m k'"
  by (induction m) (auto simp: Map_get_def Map_delete_def)

lemma Map_set_same_value: "Map_get m k = Some v \<Longrightarrow> Map_set m k v = m"
  by (induction m) (auto simp: Map_get_def split: if_splits)

lemma Map_delete_absent: "\<not> Map_has m k \<Longrightarrow> Map_delete m k = m"
  by (induction m) (auto simp: Map_has_def Map_delete_def)

lemma Map_set_keys:
  "map fst (Map_set m k v) = (if Map_has m k then map fst m else map fst m @ [k])"
  by (induction m) (auto simp: Map_has_def)

lemma Map_set_keys_distinct:
  "distinct (map fst m) \<Longrightarrow> distinct (map fst (Map_set m k v))"
  by (auto simp: Map_set_keys Map_has_def)

lemma Map_delete_keys_distinct:
  "distinct (map fst m) \<Longrightarrow> distinct (map fst (Map_delete m k))"
  by (simp add: Map_delete_def distinct_map_filter)

lemma Map_size_set:
  "Map_size (Map_set m k v) = (if Map_has m k then Map_size m else Suc (Map_size m))"
  by (induction m) (auto simp: Map_has_def Map_size_def)

lemma Map_size_delete: "Map_size (Map_delete m k) \<le> Map_size m"
  by (simp add: Map_size_def Map_delete_def)

section \<open>Base preferences\<close>

text \<open>
  Claim C9. Toggling a restaurant changes the entry of that id only: it is added with
  rating 5 when absent and removed when present; every other entry of the restaurant
  ratings, and the cuisine ratings as a whole, stay as they were. Likewise for toggling a
  cuisine.
\<close>

theorem toggle_changes_only_its_entry:
  "Map_get (restaurantRatings (toggleRestaurant i st)) i
      = (if Map_has (restaurantRatings st) i then None else Some (Num 5))
   \<and> (\<forall>j. j \<noteq> i \<longrightarrow> Map_get (restaurantRatings (toggleRestaurant i st)) j
                        = Map_get (restaurantRatings st) j)
   \<and> cuisineRatings (toggleRestaurant i st) = cuisineRatings st
   \<and> Map_get (cuisineRatings (toggleCuisine c st)) c
      = (if Map_has (cuisineRatings st) c then None else Some (Num 5))
   \<and> (\<forall>d. d \<noteq> c \<longrightarrow> Map_get (cuisineRatings (toggleCuisine c st)) d
                        = Map_get (cuisineRatings st) d)
   \<and> restaurantRatings (toggleCuisine c st) = restaurantRatings st"
  by (simp add: toggleRestaurant_def toggleCuisine_def Map_get_set_same Map_get_set_other
        Map_get_delete_same Map_get_delete_other)

theorem toggle_changes_only_its_entry_witness:
  "Map_get (restaurantRatings (toggleRestaurant 2
       (initial_state\<lparr>restaurantRatings := [(1, Num 7), (2, Num 3)],
                      cuisineRatings := [(''Thai'', Num 8)]\<rparr>))) 2 = None
   \<and> Map_get (restaurantRatings (toggleRestaurant 2
       (initial_state\<lparr>restaurantRatings := [(1, Num 7), (2, Num 3)],
                      cuisineRatings := [(''Thai'', Num 8)]\<rparr>))) 1 = Some (Num 7)
   \<and> Map_get (cuisineRatings (toggleCuisine ''Pho''
       (initial_state\<lparr>restaurantRatings := [(1, Num 7), (2, Num 3)],
                      cuisineRatings := [(''Thai'', Num 8)]\<rparr>))) ''Pho'' = Some (Num 5)
   \<and> Map_get (cuisineRatings (toggleCuisine ''Pho''
       (initial_state\<lparr>restaurantRatings := [(1, Num 7), (2, Num 3)],
                      cuisineRatings := [(''Thai'', Num 8)]\<rparr>))) ''Thai'' = Some (Num 8)"
  using toggle_changes_only_its_entry
    [of 2 "initial_state\<lparr>restaurantRatings := [(1, Num 7), (2, Num 3)],
                           cuisineRatings := [(''Thai'', Num 8)]\<rparr>" "''Pho''"]
  by (simp add: Map_has_def Map_get_def)

section \<open>Day-of ratings: capacity and frame\<close>

lemma toggleDayofCuisine_eq:
  "toggleDayofCuisine c st
     = toggleDayof (''c-'' @ c) \<lparr>rtype = cuisine_type, rid = IdStr c, rating = Num 5\<rparr> st"
  by (simp only: toggleDayofCuisine_def toggleDayof_def Let_def)

lemma toggleDayofRestaurant_eq:
  "toggleDayofRestaurant i st
     = toggleDayof (''r-'' @ string_of_nat i)
                   \<lparr>rtype = restaurant_type, rid = IdNum i, rating = Num 5\<rparr> st"
  by (simp only: toggleDayofRestaurant_def toggleDayof_def Let_def)

lemma toggleDayof_full:
  assumes "Map_get (dayofRatingsByUser st) (lastSelectedUser st) = Some d"
    and "3 \<le> Map_size d" and "\<not> Map_has d key"
  shows "toggleDayof key fresh st
           = showAlert ''dayofAlert'' ''Maximum 3 day-of ratings allowed!'' ''warning'' st"
  using assms by (simp add: toggleDayof_def Map_has_get)

text \<open>
  Claim C2. When the last-selected user's day-of map already holds three (or more)
  entries, toggling a cuisine or a restaurant that is not in it adds nothing: after the
  call the alert box \<open>dayofAlert\<close> holds the warning \<open>Maximum 3 day-of ratings allowed!\<close>,
  all day-of ratings are as they were, and nothing but that alert box has changed.
\<close>

theorem fourth_dayof_rating_rejected:
  assumes "Map_get (dayofRatingsByUser st) (lastSelectedUser st) = Some d"
    and "3 \<le> Map_size d"
  shows "(\<not> Map_has d (''c-'' @ c) \<longrightarrow>
            alerts (toggleDayofCuisine c st) ''dayofAlert''
              = Some (''Maximum 3 day-of ratings allowed!'', ''warning'')
            \<and> dayofRatingsByUser (toggleDayofCuisine c st) = dayofRatingsByUser st
            \<and> toggleDayofCuisine c st
                = st\<lparr>alerts := (alerts st)(''dayofAlert'' \<mapsto>
                                  (''Maximum 3 day-of ratings allowed!'', ''warning''))\<rparr>)
       \<and> (\<not> Map_has d (''r-'' @ string_of_nat i) \<longrightarrow>
            alerts (toggleDayofRestaurant i st) ''dayofAlert''
              = Some (''Maximum 3 day-of ratings allowed!'', ''warning'')
            \<and> dayofRatingsByUser (toggleDayofRestaurant i st) = dayofRatingsByUser st
            \<and> toggleDayofRestaurant i st
                = st\<lparr>alerts := (alerts st)(''dayofAlert'' \<mapsto>
                                  (''Maximum 3 day-of ratings allowed!'', ''warning''))\<rparr>)"
  using assms
  by (simp add: toggleDayofCuisine_eq toggleDayofRestaurant_eq toggleDayof_full showAlert_def)

theorem fourth_dayof_rating_rejected_witness:
  "alerts (toggleDayofCuisine ''Sushi''
     (initial_state\<lparr>lastSelectedUser := 7, dayofRatingsByUser :=
        [(7, [(''c-Thai'', \<lparr>rtype = cuisine_type, rid = IdStr ''Thai'', rating = Num 8\<rparr>),
              (''r-4'', \<lparr>rtype = restaurant_type, rid = IdNum 4, rating = Num 5\<rparr>),
              (''c-Pho'', \<lparr>rtype = cuisine_type, rid = IdStr ''Pho'', rating = Num 2\<rparr>)])]\<rparr>))
     ''dayofAlert'' = Some (''Maximum 3 day-of ratings allowed!'', ''warning'')
   \<and> dayofRatingsByUser (toggleDayofCuisine ''Sushi''
     (initial_state\<lparr>lastSelectedUser := 7, dayofRatingsByUser :=
        [(7, [(''c-Thai'', \<lparr>rtype = cuisine_type, rid = IdStr ''Thai'', rating = Num 8\<rparr>),
              (''r-4'', \<lparr>rtype = restaurant_type, rid = IdNum 4, rating = Num 5\<rparr>),
              (''c-Pho'', \<lparr>rtype = cuisine_type, rid = IdStr ''Pho'', rating = Num 2\<rparr>)])]\<rparr>))
   = [(7, [(''c-Thai'', \<lparr>rtype = cuisine_type, rid = IdStr ''Thai'', rating = Num 8\<rparr>),
           (''r-4'', \<lparr>rtype = restaurant_type, rid = IdNum 4, rating = Num 5\<rparr>),
           (''c-Pho'', \<lparr>rtype = cuisine_type, rid = IdStr ''Pho'', rating = Num 2\<rparr>)])]
   \<and> alerts (toggleDayofRestaurant 9
     (initial_state\<lparr>lastSelectedUser := 7, dayofRatingsByUser :=
        [(7, [(''c-Thai'', \<lparr>rtype = cuisine_type, rid = IdStr ''Thai'', rating = Num 8\<rparr>),
              (''r-4'', \<lparr>rtype = restaurant_type, rid = IdNum 4, rating = Num 5\<rparr>),
              (''c-Pho'', \<lparr>rtype = cuisine_type, rid = IdStr ''Pho'', rating = Num 2\<rparr>)])]\<rparr>))
     ''dayofAlert'' = Some (''Maximum 3 day-of ratings allowed!'', ''warning'')
   \<and> dayofRatingsByUser (toggleDayofRestaurant 9
     (initial_state\<lparr>lastSelectedUser := 7, dayofRatingsByUser :=
        [(7, [(''c-Thai'', \<lparr>rtype = cuisine_type, rid = IdStr ''Thai'', rating = Num 8\<rparr>),
              (''r-4'', \<lparr>rtype = restaurant_type, rid = IdNum 4, rating = Num 5\<rparr>),
              (''c-Pho'', \<lparr>rtype = cuisine_type, rid = IdStr ''Pho'', rating = Num 2\<rparr>)])]\<rparr>))
   = [(7, [(''c-Thai'', \<lparr>rtype = cuisine_type, rid = IdStr ''Thai'', rating = Num 8\<rparr>),
           (''r-4'', \<lparr>rtype = restaurant_type, rid = IdNum 4, rating = Num 5\<rparr>),
           (''c-Pho'', \<lparr>rtype = cuisine_type, rid = IdStr ''Pho'', rating = Num 2\<rparr>)])]"
proof -
  let ?d = "[(''c-Thai'', \<lparr>rtype = cuisine_type, rid = IdStr ''Thai'', rating = Num 8\<rparr>),
             (''r-4'', \<lparr>rtype = restaurant_type, rid = IdNum 4, rating = Num 5\<rparr>),
             (''c-Pho'', \<lparr>rtype = cuisine_type, rid = IdStr ''Pho'', rating = Num 2\<rparr>)]"
  let ?st = "initial_state\<lparr>lastSelectedUser := 7, dayofRatingsByUser := [(7, ?d)]\<rparr>"
  let ?warning = "Some (''Maximum 3 day-of ratings allowed!'', ''warning'')"
  have h1: "Map_get (dayofRatingsByUser ?st) (lastSelectedUser ?st) = Some ?d"
    by (simp add: Map_get_def)
  have h2: "3 \<le> Map_size ?d" by (simp add: Map_size_def)
  have n1: "\<not> Map_has ?d (''c-'' @ ''Sushi'')" by (simp add: Map_has_def)
  have n2: "\<not> Map_has ?d (''r-'' @ string_of_nat 9)"
    by code_simp
  from fourth_dayof_rating_rejected [OF h1 h2, of "''Sushi''" 9] n1 n2
  have a: "alerts (toggleDayofCuisine ''Sushi'' ?st) ''dayofAlert'' = ?warning"
    and b: "dayofRatingsByUser (toggleDayofCuisine ''Sushi'' ?st) = dayofRatingsByUser ?st"
    and c: "alerts (toggleDayofRestaurant 9 ?st) ''dayofAlert'' = ?warning"
    and d: "dayofRatingsByUser (toggleDayofRestaurant 9 ?st) = dayofRatingsByUser ?st"
    by blast+
  have e: "dayofRatingsByUser ?st = [(7, ?d)]" by simp
  show ?thesis using a b c d e by (simp only: simp_thms)
qed

lemma removeDayofRating_shape:
  "\<exists>X. removeDayofRating key st = st\<lparr>dayofRatingsByUser := X\<rparr>
       \<and> (\<forall>u. u \<noteq> lastSelectedUser st \<longrightarrow> Map_get X u = Map_get (dayofRatingsByUser st) u)"
proof (cases "Map_get (dayofRatingsByUser st) (lastSelectedUser st)")
  case None
  then have "removeDayofRating key st = st\<lparr>dayofRatingsByUser := dayofRatingsByUser st\<rparr>"
    by (simp add: removeDayofRating_def)
  then show ?thesis by blast
next
  case (Some d)
  then have "removeDayofRating key st
      = st\<lparr>dayofRatingsByUser :=
             Map_set (dayofRatingsByUser st) (lastSelectedUser st) (Map_delete d key)\<rparr>"
    by (simp add: removeDayofRating_def Map_has_get)
  moreover have "\<forall>u. u \<noteq> lastSelectedUser st \<longrightarrow>
      Map_get (Map_set (dayofRatingsByUser st) (lastSelectedUser st) (Map_delete d key)) u
        = Map_get (dayofRatingsByUser st) u"
    by (simp add: Map_get_set_other)
  ultimately show ?thesis by blast
qed

lemma updateDayofRating_shape:
  "\<exists>X. updateDayofRating key v st = st\<lparr>dayofRatingsByUser := X\<rparr>
       \<and> (\<forall>u. u \<noteq> lastSelectedUser st \<longrightarrow> Map_get X u = Map_get (dayofRatingsByUser st) u)"
proof -
  let ?same = "st\<lparr>dayofRatingsByUser := dayofRatingsByUser st\<rparr>"
  have same: "?same = st" by simp
  show ?thesis
  proof (cases "Map_get (dayofRatingsByUser st) (lastSelectedUser st)")
    case None
    then have "updateDayofRating key v st = ?same"
      by (simp add: updateDayofRating_def)
    then show ?thesis by blast
  next
    case (Some d)
    show ?thesis
    proof (cases "Map_get d key")
      case None
      with Some have "updateDayofRating key v st = ?same"
        by (simp add: updateDayofRating_def)
      then show ?thesis by blast
    next
      case (Some r)
      with \<open>Map_get (dayofRatingsByUser st) (lastSelectedUser st) = Some d\<close>
      have "updateDayofRating key v st
          = st\<lparr>dayofRatingsByUser :=
                 Map_set (dayofRatingsByUser st) (lastSelectedUser st)
                         (Map_set d key (r\<lparr>rating := v\<rparr>))\<rparr>"
        by (simp add: updateDayofRating_def Map_has_get)
      moreover have "\<forall>u. u \<noteq> lastSelectedUser st \<longrightarrow>
          Map_get (Map_set (dayofRatingsByUser st) (lastSelectedUser st)
                           (Map_set d key (r\<lparr>rating := v\<rparr>))) u
            = Map_get (dayofRatingsByUser st) u"
        by (simp add: Map_get_set_other)
      ultimately show ?thesis by blast
    qed
  qed
qed

lemma toggleDayof_shape:
  "\<exists>X Y. toggleDayof key fresh st = st\<lparr>dayofRatingsByUser := X, alerts := Y\<rparr>
       \<and> (\<forall>u. u \<noteq> lastSelectedUser st \<longrightarrow> Map_get X u = Map_get (dayofRatingsByUser st) u)"
proof -
  let ?last = "lastSelectedUser st"
  let ?outer = "dayofRatingsByUser st"
  define outer1 where
    "outer1 = (if \<not> Map_has ?outer ?last then Map_set ?outer ?last [] else ?outer)"
  define st1 where "st1 = st\<lparr>dayofRatingsByUser := outer1\<rparr>"
  have st1_eq: "(if \<not> Map_has ?outer ?last
                 then st\<lparr>dayofRatingsByUser := Map_set ?outer ?last []\<rparr> else st) = st1"
    by (simp add: st1_def outer1_def)
  have last1: "lastSelectedUser st1 = ?last" and d1: "dayofRatingsByUser st1 = outer1"
    by (simp_all add: st1_def)
  have frame1: "\<forall>u. u \<noteq> ?last \<longrightarrow> Map_get outer1 u = Map_get ?outer u"
    by (simp add: outer1_def Map_get_set_other)
  obtain d0 where d0: "Map_get outer1 ?last = Some d0"
    by (cases "Map_has ?outer ?last") (auto simp: outer1_def Map_get_set_same Map_has_get)
  have unfold: "toggleDayof key fresh st =
      (if Map_has d0 key then removeDayofRating key st1
       else if Map_size d0 \<ge> 3
       then showAlert ''dayofAlert'' ''Maximum 3 day-of ratings allowed!'' ''warning'' st1
       else st1\<lparr>dayofRatingsByUser := Map_set outer1 ?last (Map_set d0 key fresh)\<rparr>)"
    unfolding toggleDayof_def Let_def st1_eq by (simp add: last1 d1 d0)
  consider (rem) "Map_has d0 key"
    | (full) "\<not> Map_has d0 key" "Map_size d0 \<ge> 3"
    | (add) "\<not> Map_has d0 key" "\<not> Map_size d0 \<ge> 3" by blast
  then show ?thesis
  proof cases
    case rem
    from removeDayofRating_shape [of key st1] obtain X where
      X: "removeDayofRating key st1 = st1\<lparr>dayofRatingsByUser := X\<rparr>"
         "\<forall>u. u \<noteq> lastSelectedUser st1 \<longrightarrow> Map_get X u = Map_get (dayofRatingsByUser st1) u"
      by blast
    have "toggleDayof key fresh st = st\<lparr>dayofRatingsByUser := X, alerts := alerts st\<rparr>"
      using rem unfold X(1) by (simp add: st1_def)
    moreover have "\<forall>u. u \<noteq> ?last \<longrightarrow> Map_get X u = Map_get ?outer u"
      using X(2) frame1 by (simp add: last1 d1)
    ultimately show ?thesis by blast
  next
    case full
    have "toggleDayof key fresh st
        = st\<lparr>dayofRatingsByUser := outer1,
              alerts := (alerts st)(''dayofAlert'' \<mapsto>
                           (''Maximum 3 day-of ratings allowed!'', ''warning''))\<rparr>"
      using full unfold by (simp add: st1_def showAlert_def)
    with frame1 show ?thesis by blast
  next
    case add
    have "toggleDayof key fresh st
        = st\<lparr>dayofRatingsByUser := Map_set outer1 ?last (Map_set d0 key fresh),
              alerts := alerts st\<rparr>"
      using add unfold by (simp add: st1_def)
    moreover have "\<forall>u. u \<noteq> ?last \<longrightarrow>
        Map_get (Map_set outer1 ?last (Map_set d0 key fresh)) u = Map_get ?outer u"
      using frame1 by (simp add: Map_get_set_other)
    ultimately show ?thesis by blast
  qed
qed

lemma frame_of_shape:
  assumes "\<exists>X Y. st' = st\<lparr>dayofRatingsByUser := X, alerts := Y\<rparr>
       \<and> (\<forall>u. u \<noteq> lastSelectedUser st \<longrightarrow> Map_get X u = Map_get (dayofRatingsByUser st) u)"
  shows "(\<forall>u. u \<noteq> lastSelectedUser st \<longrightarrow>
             Map_get (dayofRatingsByUser st') u = Map_get (dayofRatingsByUser st) u)
         \<and> st' = st\<lparr>dayofRatingsByUser := dayofRatingsByUser st', alerts := alerts st'\<rparr>"
proof -
  from assms obtain X Y where s: "st' = st\<lparr>dayofRatingsByUser := X, alerts := Y\<rparr>"
    and f: "\<forall>u. u \<noteq> lastSelectedUser st \<longrightarrow> Map_get X u = Map_get (dayofRatingsByUser st) u"
    by blast
  from s have "dayofRatingsByUser st' = X" by simp
  with f s show ?thesis by simp
qed

lemma toggleDayof_frame:
  "(\<forall>u. u \<noteq> lastSelectedUser st \<longrightarrow>
        Map_get (dayofRatingsByUser (toggleDayof key fresh st)) u
          = Map_get (dayofRatingsByUser st) u)
   \<and> toggleDayof key fresh st
       = st\<lparr>dayofRatingsByUser := dayofRatingsByUser (toggleDayof key fresh st),
             alerts := alerts (toggleDayof key fresh st)\<rparr>"
  by (rule frame_of_shape) (rule toggleDayof_shape)

lemma removeDayofRating_frame:
  "(\<forall>u. u \<noteq> lastSelectedUser st \<longrightarrow>
        Map_get (dayofRatingsByUser (removeDayofRating key st)) u
          = Map_get (dayofRatingsByUser st) u)
   \<and> removeDayofRating key st
       = st\<lparr>dayofRatingsByUser := dayofRatingsByUser (removeDayofRating key st),
             alerts := alerts (removeDayofRating key st)\<rparr>"
proof (rule frame_of_shape)
  from removeDayofRating_shape [of key st] obtain X where
    "removeDayofRating key st = st\<lparr>dayofRatingsByUser := X, alerts := alerts st\<rparr>"
    "\<forall>u. u \<noteq> lastSelectedUser st \<longrightarrow> Map_get X u = Map_get (dayofRatingsByUser st) u"
    by auto
  then show "\<exists>X Y. removeDayofRating key st = st\<lparr>dayofRatingsByUser := X, alerts := Y\<rparr>
       \<and> (\<forall>u. u \<noteq> lastSelectedUser st \<longrightarrow> Map_get X u = Map_get (dayofRatingsByUser st) u)"
    by blast
qed

lemma updateDayofRating_frame:
  "(\<forall>u. u \<noteq> lastSelectedUser st \<longrightarrow>
        Map_get (dayofRatingsByUser (updateDayofRating key v st)) u
          = Map_get (dayofRatingsByUser st) u)
   \<and> updateDayofRating key v st
       = st\<lparr>dayofRatingsByUser := dayofRatingsByUser (updateDayofRating key v st),
             alerts := alerts (updateDayofRating key v st)\<rparr>"
proof (rule frame_of_shape)
  from updateDayofRating_shape [of key v st] obtain X where
    "updateDayofRating key v st = st\<lparr>dayofRatingsByUser := X, alerts := alerts st\<rparr>"
    "\<forall>u. u \<noteq> lastSelectedUser st \<longrightarrow> Map_get X u = Map_get (dayofRatingsByUser st) u"
    by auto
  then show "\<exists>X Y. updateDayofRating key v st = st\<lparr>dayofRatingsByUser := X, alerts := Y\<rparr>
       \<and> (\<forall>u. u \<noteq> lastSelectedUser st \<longrightarrow> Map_get X u = Map_get (dayofRatingsByUser st) u)"
    by blast
qed

lemma removeDayofRating_no_map:
  "\<not> Map_has (dayofRatingsByUser st) (lastSelectedUser st) \<Longrightarrow> removeDayofRating key st = st"
  by (simp add: removeDayofRating_def)

lemma updateDayofRating_no_map:
  "\<not> Map_has (dayofRatingsByUser st) (lastSelectedUser st) \<Longrightarrow> updateDayofRating key v st = st"
  by (simp add: updateDayofRating_def)

lemma removeDayofRating_no_key:
  assumes "Map_get (dayofRatingsByUser st) (lastSelectedUser st) = Some d" "\<not> Map_has d key"
  shows "removeDayofRating key st = st"
  using assms
  by (simp add: removeDayofRating_def Map_delete_absent Map_set_same_value)

lemma updateDayofRating_no_key:
  assumes "Map_get (dayofRatingsByUser st) (lastSelectedUser st) = Some d" "\<not> Map_has d key"
  shows "updateDayofRating key v st = st"
  using assms
  by (simp add: updateDayofRating_def Map_has_get)

text \<open>
  Claim C10. Each of the four day-of operations leaves the day-of map of every user other
  than the last-selected one unchanged, and changes nothing in the state besides the
  day-of ratings and the alert boxes (the capacity warning). Updating and removing change
  nothing at all when the last-selected user has no day-of map or the map lacks the key.
\<close>

theorem dayof_mutations_touch_only_last_selected_user:
  "(\<forall>op \<in> {toggleDayofCuisine c, toggleDayofRestaurant i,
             updateDayofRating key v, removeDayofRating key}.
      (\<forall>u. u \<noteq> lastSelectedUser st \<longrightarrow>
           Map_get (dayofRatingsByUser (op st)) u = Map_get (dayofRatingsByUser st) u)
      \<and> op st = st\<lparr>dayofRatingsByUser := dayofRatingsByUser (op st), alerts := alerts (op st)\<rparr>)
   \<and> (\<forall>op \<in> {updateDayofRating key v, removeDayofRating key}.
        (\<not> Map_has (dayofRatingsByUser st) (lastSelectedUser st) \<longrightarrow> op st = st)
      \<and> (\<forall>d. Map_get (dayofRatingsByUser st) (lastSelectedUser st) = Some d
               \<and> \<not> Map_has d key \<longrightarrow> op st = st))"
proof (rule conjI; rule ballI)
  fix op
  assume "op \<in> {toggleDayofCuisine c, toggleDayofRestaurant i,
             updateDayofRating key v, removeDayofRating key}"
  then consider "op = toggleDayofCuisine c" | "op = toggleDayofRestaurant i"
    | "op = updateDayofRating key v" | "op = removeDayofRating key" by blast
  then show "(\<forall>u. u \<noteq> lastSelectedUser st \<longrightarrow>
           Map_get (dayofRatingsByUser (op st)) u = Map_get (dayofRatingsByUser st) u)
      \<and> op st = st\<lparr>dayofRatingsByUser := dayofRatingsByUser (op st), alerts := alerts (op st)\<rparr>"
  proof cases
    case 1
    show ?thesis unfolding 1 toggleDayofCuisine_eq by (rule toggleDayof_frame)
  next
    case 2
    show ?thesis unfolding 2 toggleDayofRestaurant_eq by (rule toggleDayof_frame)
  next
    case 3
    show ?thesis unfolding 3 by (rule updateDayofRating_frame)
  next
    case 4
    show ?thesis unfolding 4 by (rule removeDayofRating_frame)
  qed
next
  fix op
  assume "op \<in> {updateDayofRating key v, removeDayofRating key}"
  then have "op = updateDayofRating key v \<or> op = removeDayofRating key" by blast
  then show "(\<not> Map_has (dayofRatingsByUser st) (lastSelectedUser st) \<longrightarrow> op st = st)
      \<and> (\<forall>d. Map_get (dayofRatingsByUser st) (lastSelectedUser st) = Some d
               \<and> \<not> Map_has d key \<longrightarrow> op st = st)"
    using removeDayofRating_no_map updateDayofRating_no_map
      removeDayofRating_no_key updateDayofRating_no_key by blast
qed

theorem dayof_mutations_touch_only_last_selected_user_witness:
  "Map_get (dayofRatingsByUser (toggleDayofCuisine ''Pho''
      (initial_state\<lparr>lastSelectedUser := 7, dayofRatingsByUser :=
        [(7, [(''c-Thai'', \<lparr>rtype = cuisine_type, rid = IdStr ''Thai'', rating = Num 8\<rparr>)]),
         (8, [(''r-4'', \<lparr>rtype = restaurant_type, rid = IdNum 4, rating = Num 5\<rparr>)])]\<rparr>))) 8
     = Some [(''r-4'', \<lparr>rtype = restaurant_type, rid = IdNum 4, rating = Num 5\<rparr>)]
   \<and> Map_get (dayofRatingsByUser (toggleDayofRestaurant 4
      (initial_state\<lparr>lastSelectedUser := 7, dayofRatingsByUser :=
        [(7, [(''c-Thai'', \<lparr>rtype = cuisine_type, rid = IdStr ''Thai'', rating = Num 8\<rparr>)]),
         (8, [(''r-4'', \<lparr>rtype = restaurant_type, rid = IdNum 4, rating = Num 5\<rparr>)])]\<rparr>))) 8
     = Some [(''r-4'', \<lparr>rtype = restaurant_type, rid = IdNum 4, rating = Num 5\<rparr>)]
   \<and> updateDayofRating ''c-Sushi'' (Num 9)
      (initial_state\<lparr>lastSelectedUser := 7, dayofRatingsByUser :=
        [(7, [(''c-Thai'', \<lparr>rtype = cuisine_type, rid = IdStr ''Thai'', rating = Num 8\<rparr>)]),
         (8, [(''r-4'', \<lparr>rtype = restaurant_type, rid = IdNum 4, rating = Num 5\<rparr>)])]\<rparr>)
     = initial_state\<lparr>lastSelectedUser := 7, dayofRatingsByUser :=
        [(7, [(''c-Thai'', \<lparr>rtype = cuisine_type, rid = IdStr ''Thai'', rating = Num 8\<rparr>)]),
         (8, [(''r-4'', \<lparr>rtype = restaurant_type, rid = IdNum 4, rating = Num 5\<rparr>)])]\<rparr>
   \<and> removeDayofRating ''c-Sushi''
      (initial_state\<lparr>lastSelectedUser := 7, dayofRatingsByUser :=
        [(7, [(''c-Thai'', \<lparr>rtype = cuisine_type, rid = IdStr ''Thai'', rating = Num 8\<rparr>)]),
         (8, [(''r-4'', \<lparr>rtype = restaurant_type, rid = IdNum 4, rating = Num 5\<rparr>)])]\<rparr>)
     = initial_state\<lparr>lastSelectedUser := 7, dayofRatingsByUser :=
        [(7, [(''c-Thai'', \<lparr>rtype = cuisine_type, rid = IdStr ''Thai'', rating = Num 8\<rparr>)]),
         (8, [(''r-4'', \<lparr>rtype = restaurant_type, rid = IdNum 4, rating = Num 5\<rparr>)])]\<rparr>"
proof -
  let ?d7 = "[(''c-Thai'', \<lparr>rtype = cuisine_type, rid = IdStr ''Thai'', rating = Num 8\<rparr>)]"
  let ?d8 = "[(''r-4'', \<lparr>rtype = restaurant_type, rid = IdNum 4, rating = Num 5\<rparr>)]"
  let ?st = "initial_state\<lparr>lastSelectedUser := 7, dayofRatingsByUser := [(7, ?d7), (8, ?d8)]\<rparr>"
  note t = dayof_mutations_touch_only_last_selected_user
             [of "''Pho''" 4 "''c-Sushi''" "Num 9" ?st]
  have other: "(8::int) \<noteq> lastSelectedUser ?st" by simp
  have g8: "Map_get (dayofRatingsByUser ?st) 8 = Some ?d8" by (simp add: Map_get_def)
  have g7: "Map_get (dayofRatingsByUser ?st) (lastSelectedUser ?st) = Some ?d7"
    by (simp add: Map_get_def)
  have absent: "\<not> Map_has ?d7 ''c-Sushi''" by (simp add: Map_has_def)
  from t have "\<forall>u. u \<noteq> lastSelectedUser ?st \<longrightarrow>
      Map_get (dayofRatingsByUser (toggleDayofCuisine ''Pho'' ?st)) u
        = Map_get (dayofRatingsByUser ?st) u"
    by blast
  with other g8 have a: "Map_get (dayofRatingsByUser (toggleDayofCuisine ''Pho'' ?st)) 8 = Some ?d8"
    by metis
  from t have "\<forall>u. u \<noteq> lastSelectedUser ?st \<longrightarrow>
      Map_get (dayofRatingsByUser (toggleDayofRestaurant 4 ?st)) u
        = Map_get (dayofRatingsByUser ?st) u"
    by blast
  with other g8 have b: "Map_get (dayofRatingsByUser (toggleDayofRestaurant 4 ?st)) 8 = Some ?d8"
    by metis
  from t have "\<forall>d. Map_get (dayofRatingsByUser ?st) (lastSelectedUser ?st) = Some d
               \<and> \<not> Map_has d ''c-Sushi'' \<longrightarrow> updateDayofRating ''c-Sushi'' (Num 9) ?st = ?st"
    by blast
  with g7 absent have c: "updateDayofRating ''c-Sushi'' (Num 9) ?st = ?st" by blast
  from t have "\<forall>d. Map_get (dayofRatingsByUser ?st) (lastSelectedUser ?st) = Some d
               \<and> \<not> Map_has d ''c-Sushi'' \<longrightarrow> removeDayofRating ''c-Sushi'' ?st = ?st"
    by blast
  with g7 absent have d: "removeDayofRating ''c-Sushi'' ?st = ?st" by blast
  from a b c d show ?thesis by (simp only: simp_thms)
qed

text \<open>
  The capacity as an invariant: when no user's day-of map holds more than three entries,
  none does after a toggle.
\<close>

lemma toggleDayof_last:
  "\<exists>d0. (if Map_has (dayofRatingsByUser st) (lastSelectedUser st)
          then Map_get (dayofRatingsByUser st) (lastSelectedUser st) = Some d0
          else d0 = [])
      \<and> Map_get (dayofRatingsByUser (toggleDayof key fresh st)) (lastSelectedUser st)
          = Some (if Map_has d0 key then Map_delete d0 key
                  else if Map_size d0 \<ge> 3 then d0
                  else Map_set d0 key fresh)"
proof -
  let ?last = "lastSelectedUser st"
  let ?outer = "dayofRatingsByUser st"
  define outer1 where
    "outer1 = (if \<not> Map_has ?outer ?last then Map_set ?outer ?last [] else ?outer)"
  define st1 where "st1 = st\<lparr>dayofRatingsByUser := outer1\<rparr>"
  have st1_eq: "(if \<not> Map_has ?outer ?last
                 then st\<lparr>dayofRatingsByUser := Map_set ?outer ?last []\<rparr> else st) = st1"
    by (simp add: st1_def outer1_def)
  have last1: "lastSelectedUser st1 = ?last" and d1: "dayofRatingsByUser st1 = outer1"
    by (simp_all add: st1_def)
  obtain d0 where d0: "Map_get outer1 ?last = Some d0"
    and d0': "if Map_has ?outer ?last then Map_get ?outer ?last = Some d0 else d0 = []"
    by (cases "Map_has ?outer ?last") (auto simp: outer1_def Map_get_set_same Map_has_get)
  have has1: "Map_has outer1 ?last" using d0 by (simp add: Map_has_get)
  have "Map_get (dayofRatingsByUser (toggleDayof key fresh st)) ?last
          = Some (if Map_has d0 key then Map_delete d0 key
                  else if Map_size d0 \<ge> 3 then d0
                  else Map_set d0 key fresh)"
    unfolding toggleDayof_def Let_def st1_eq
    using d0 has1
    by (simp add: last1 d1 removeDayofRating_def showAlert_def Map_get_set_same)
  with d0' show ?thesis by blast
qed

lemma toggleDayof_capacity:
  assumes "\<forall>u d. Map_get (dayofRatingsByUser st) u = Some d \<longrightarrow> Map_size d \<le> 3"
  shows "\<forall>u d. Map_get (dayofRatingsByUser (toggleDayof key fresh st)) u = Some d
            \<longrightarrow> Map_size d \<le> 3"
proof (intro allI impI)
  fix u d
  assume g: "Map_get (dayofRatingsByUser (toggleDayof key fresh st)) u = Some d"
  show "Map_size d \<le> 3"
  proof (cases "u = lastSelectedUser st")
    case False
    with toggleDayof_frame [of st key fresh] g
    have "Map_get (dayofRatingsByUser st) u = Some d" by simp
    with assms show ?thesis by blast
  next
    case True
    from toggleDayof_last [of st key fresh] obtain d0 where
      d0: "if Map_has (dayofRatingsByUser st) (lastSelectedUser st)
           then Map_get (dayofRatingsByUser st) (lastSelectedUser st) = Some d0 else d0 = []"
      and r: "Map_get (dayofRatingsByUser (toggleDayof key fresh st)) (lastSelectedUser st)
          = Some (if Map_has d0 key then Map_delete d0 key
                  else if Map_size d0 \<ge> 3 then d0
                  else Map_set d0 key fresh)"
      by blast
    have le: "Map_size d0 \<le> 3"
      using d0 assms by (auto simp: Map_size_def split: if_splits)
    have "Map_size (Map_delete d0 key) \<le> 3"
      using le Map_size_delete [of d0 key] by simp
    moreover have "\<not> Map_has d0 key \<Longrightarrow> \<not> Map_size d0 \<ge> 3
        \<Longrightarrow> Map_size (Map_set d0 key fresh) \<le> 3"
      by (simp add: Map_size_set)
    ultimately show ?thesis
      using r g True le by (auto split: if_splits)
  qed
qed

lemma toggles_keep_capacity:
  assumes "\<forall>u d. Map_get (dayofRatingsByUser st) u = Some d \<longrightarrow> Map_size d \<le> 3"
  shows "(\<forall>u d. Map_get (dayofRatingsByUser (toggleDayofCuisine c st)) u = Some d
            \<longrightarrow> Map_size d \<le> 3)
       \<and> (\<forall>u d. Map_get (dayofRatingsByUser (toggleDayofRestaurant i st)) u = Some d
            \<longrightarrow> Map_size d \<le> 3)"
  unfolding toggleDayofCuisine_eq toggleDayofRestaurant_eq
  using assms by (intro conjI toggleDayof_capacity)

section \<open>Match requests\<close>

lemma Set_size_distinct: "distinct s \<Longrightarrow> Set_size s = card (set s)"
  by (simp add: Set_size_def distinct_card)

lemma toggleUser_distinct:
  "distinct (selectedUsers st) \<Longrightarrow> distinct (selectedUsers (toggleUser i st))"
  by (simp add: toggleUser_def Set_add_def Set_delete_def Set_has_def distinct_removeAll)

lemma deselectAllUsers_distinct: "distinct (selectedUsers (deselectAllUsers st))"
  by (simp add: deselectAllUsers_def)

text \<open>
  Claim C4. With fewer than two selected users \<open>callMagic\<close> fails: after the call the
  alert box \<open>listAlert\<close> holds \<open>Please select at least 2 users to generate matches\<close> with
  type \<open>error\<close>, no request has been sent, the stored match list and the rendered results
  are as they were, and nothing but that alert box has changed. (\<open>selectedUsers\<close> is a
  set, so its size counts distinct users.)
\<close>

theorem too_few_users_no_request:
  assumes "Set_size (selectedUsers st) < 2"
  shows "alerts (callMagic fetch st) ''listAlert''
           = Some (''Please select at least 2 users to generate matches'', ''error'')
         \<and> requests (callMagic fetch st) = requests st
         \<and> matching (callMagic fetch st) = matching st
         \<and> matchingResults (callMagic fetch st) = matchingResults st
         \<and> callMagic fetch st
             = st\<lparr>alerts := (alerts st)(''listAlert'' \<mapsto>
                   (''Please select at least 2 users to generate matches'', ''error''))\<rparr>"
  using assms by (simp add: callMagic_def showAlert_def)

theorem too_few_users_no_request_witness:
  "alerts (callMagic (\<lambda>r. Ok (Some [(''Luigi'', ''Italian'', Num 36)]))
       (initial_state\<lparr>selectedUsers := [7]\<rparr>)) ''listAlert''
     = Some (''Please select at least 2 users to generate matches'', ''error'')
   \<and> requests (callMagic (\<lambda>r. Ok (Some [(''Luigi'', ''Italian'', Num 36)]))
         (initial_state\<lparr>selectedUsers := [7]\<rparr>)) = []
   \<and> matchingResults (callMagic (\<lambda>r. Ok (Some [(''Luigi'', ''Italian'', Num 36)]))
         (initial_state\<lparr>selectedUsers := [7]\<rparr>)) = Unrendered"
proof -
  let ?fetch = "\<lambda>r :: request. Ok (Some [(''Luigi'', ''Italian'', Num 36)])"
  let ?st = "initial_state\<lparr>selectedUsers := [7]\<rparr>"
  have h: "Set_size (selectedUsers ?st) < 2"
    by (simp add: Set_size_def)
  have r: "requests ?st = []" "matchingResults ?st = Unrendered"
    by (simp_all add: initial_state_def)
  from too_few_users_no_request [OF h, of ?fetch]
  have a: "alerts (callMagic ?fetch ?st) ''listAlert''
             = Some (''Please select at least 2 users to generate matches'', ''error'')"
    and b: "requests (callMagic ?fetch ?st) = requests ?st"
    and c: "matchingResults (callMagic ?fetch ?st) = matchingResults ?st"
    by blast+
  show ?thesis using a b c r by (simp only: simp_thms)
qed

lemma callMagic_sends:
  assumes "2 \<le> Set_size (selectedUsers st)"
  shows "callMagic fetch st =
     (let req = MatchingRequest (map (build_user_rating st) (selectedUsers st));
          st2 = st\<lparr>alerts := (alerts st)(''listAlert'' \<mapsto> (''Generating matches...'', ''success'')),
                   requests := requests st @ [req]\<rparr>
      in case fetch req of
           Rejected message \<Rightarrow>
             showAlert ''listAlert'' (or_else message ''Error generating matches'') ''error'' st2
         | NotOk err \<Rightarrow>
             showAlert ''listAlert''
               (or_else (or_else (case err of None \<Rightarrow> [] | Some e \<Rightarrow> e)
                                 ''Failed to generate matches'')
                        ''Error generating matches'') ''error'' st2
         | Ok body \<Rightarrow> renderMatchingList (switchScreen True (st2\<lparr>matching := body\<rparr>)))"
  using assms
  by (simp add: callMagic_def Let_def showAlert_def not_less [symmetric]
        del: not_less split: response.splits)

lemma or_else_nonempty: "b \<noteq> [] \<Longrightarrow> or_else a b \<noteq> []"
  by (simp add: or_else_def)

lemma render_keeps:
  "matching (renderMatchingList st) = matching st
   \<and> currentScreen (renderMatchingList st) = currentScreen st
   \<and> alerts (renderMatchingList st) = alerts st
   \<and> requests (renderMatchingList st) = requests st"
  by (simp add: renderMatchingList_def Let_def split: option.splits)

text \<open>
  Claim C7. When the server answers a match request with an empty list, \<open>callMagic\<close>
  stores the empty list, switches to the matching screen and renders the no-matches
  state, and the alert box keeps the success message. When the request is rejected or
  answered with an error status, the rendered results, the stored match list and the
  screen stay as they were, and the alert box shows a non-empty message of type
  \<open>error\<close>: the failure path never writes the no-matches state.
\<close>

theorem empty_result_distinct_from_failure:
  assumes "2 \<le> Set_size (selectedUsers st)"
    and "req = MatchingRequest (map (build_user_rating st) (selectedUsers st))"
  shows "(fetch req = Ok (Some []) \<longrightarrow>
            matchingResults (callMagic fetch st) = EmptyState ''No matching restaurants found''
          \<and> matching (callMagic fetch st) = Some []
          \<and> currentScreen (callMagic fetch st) = matching_screen
          \<and> alerts (callMagic fetch st) ''listAlert'' = Some (''Generating matches...'', ''success''))
       \<and> ((\<exists>message. fetch req = Rejected message) \<or> (\<exists>err. fetch req = NotOk err) \<longrightarrow>
            matchingResults (callMagic fetch st) = matchingResults st
          \<and> matching (callMagic fetch st) = matching st
          \<and> currentScreen (callMagic fetch st) = currentScreen st
          \<and> (\<exists>message. message \<noteq> []
                \<and> alerts (callMagic fetch st) ''listAlert'' = Some (message, ''error'')))"
proof (intro conjI impI)
  assume ok: "fetch req = Ok (Some [])"
  let ?st3 = "switchScreen True
      (st\<lparr>alerts := (alerts st)(''listAlert'' \<mapsto> (''Generating matches...'', ''success'')),
          requests := requests st @ [req], matching := Some []\<rparr>)"
  have c: "callMagic fetch st = renderMatchingList ?st3"
    using ok assms by (simp add: callMagic_sends Let_def)
  have m: "matching ?st3 = Some []" by (simp add: switchScreen_def)
  show "matchingResults (callMagic fetch st) = EmptyState ''No matching restaurants found''"
    unfolding c using m by (simp add: renderMatchingList_def)
  show "matching (callMagic fetch st) = Some []"
    unfolding c using m by (simp add: render_keeps)
  show "currentScreen (callMagic fetch st) = matching_screen"
    unfolding c by (simp add: render_keeps switchScreen_def)
  show "alerts (callMagic fetch st) ''listAlert'' = Some (''Generating matches...'', ''success'')"
    unfolding c by (simp add: render_keeps switchScreen_def)
next
  assume "(\<exists>message. fetch req = Rejected message) \<or> (\<exists>err. fetch req = NotOk err)"
  then obtain message where message: "message \<noteq> []"
    and c: "callMagic fetch st = showAlert ''listAlert'' message ''error''
       (st\<lparr>alerts := (alerts st)(''listAlert'' \<mapsto> (''Generating matches...'', ''success'')),
           requests := requests st @ [req]\<rparr>)"
  proof (elim disjE exE)
    fix m assume "fetch req = Rejected m"
    then have "callMagic fetch st = showAlert ''listAlert'' (or_else m ''Error generating matches'') ''error''
       (st\<lparr>alerts := (alerts st)(''listAlert'' \<mapsto> (''Generating matches...'', ''success'')),
           requests := requests st @ [req]\<rparr>)"
      using assms by (simp add: callMagic_sends Let_def)
    moreover have "or_else m ''Error generating matches'' \<noteq> []"
      by (rule or_else_nonempty) simp
    ultimately show thesis by (rule that[rotated])
  next
    fix e assume "fetch req = NotOk e"
    then have "callMagic fetch st = showAlert ''listAlert''
         (or_else (or_else (case e of None \<Rightarrow> [] | Some e \<Rightarrow> e) ''Failed to generate matches'')
                  ''Error generating matches'') ''error''
       (st\<lparr>alerts := (alerts st)(''listAlert'' \<mapsto> (''Generating matches...'', ''success'')),
           requests := requests st @ [req]\<rparr>)"
      using assms by (simp add: callMagic_sends Let_def)
    moreover have "or_else (or_else (case e of None \<Rightarrow> [] | Some e \<Rightarrow> e) ''Failed to generate matches'')
                  ''Error generating matches'' \<noteq> []"
      by (rule or_else_nonempty) simp
    ultimately show thesis by (rule that[rotated])
  qed
  show "matchingResults (callMagic fetch st) = matchingResults st"
    unfolding c by (simp add: showAlert_def)
  show "matching (callMagic fetch st) = matching st"
    unfolding c by (simp add: showAlert_def)
  show "currentScreen (callMagic fetch st) = currentScreen st"
    unfolding c by (simp add: showAlert_def)
  show "\<exists>message. message \<noteq> []
                \<and> alerts (callMagic fetch st) ''listAlert'' = Some (message, ''error'')"
    unfolding c using message by (simp add: showAlert_def)
qed

theorem empty_result_distinct_from_failure_witness:
  "matchingResults (callMagic (\<lambda>r. Ok (Some []))
       (initial_state\<lparr>currentScreen := list, selectedUsers := [7, 8]\<rparr>))
     = EmptyState ''No matching restaurants found''
   \<and> currentScreen (callMagic (\<lambda>r. Ok (Some []))
       (initial_state\<lparr>currentScreen := list, selectedUsers := [7, 8]\<rparr>)) = matching_screen
   \<and> matchingResults (callMagic (\<lambda>r. NotOk (Some ''User not found''))
       (initial_state\<lparr>currentScreen := list, selectedUsers := [7, 8]\<rparr>)) = Unrendered
   \<and> currentScreen (callMagic (\<lambda>r. NotOk (Some ''User not found''))
       (initial_state\<lparr>currentScreen := list, selectedUsers := [7, 8]\<rparr>)) = list
   \<and> matchingResults (callMagic (\<lambda>r. Rejected ''Failed to fetch'')
       (initial_state\<lparr>currentScreen := list, selectedUsers := [7, 8]\<rparr>)) = Unrendered"
proof -
  let ?st = "initial_state\<lparr>currentScreen := list, selectedUsers := [7, 8]\<rparr>"
  let ?req = "MatchingRequest (map (build_user_rating ?st) (selectedUsers ?st))"
  have h: "2 \<le> Set_size (selectedUsers ?st)" by (simp add: Set_size_def)
  have s: "currentScreen ?st = list" "matchingResults ?st = Unrendered"
    by (simp_all add: initial_state_def)
  note t = empty_result_distinct_from_failure [OF h refl]
  have "(\<lambda>r. Ok (Some [])) ?req = Ok (Some [])" by simp
  with t [of "\<lambda>r. Ok (Some [])"]
  have a: "matchingResults (callMagic (\<lambda>r. Ok (Some [])) ?st)
             = EmptyState ''No matching restaurants found''"
       "currentScreen (callMagic (\<lambda>r. Ok (Some [])) ?st) = matching_screen"
    by blast+
  have "\<exists>err. (\<lambda>r. NotOk (Some ''User not found'')) ?req = NotOk err" by simp
  with t [of "\<lambda>r. NotOk (Some ''User not found'')"]
  have b: "matchingResults (callMagic (\<lambda>r. NotOk (Some ''User not found'')) ?st)
             = matchingResults ?st"
       "currentScreen (callMagic (\<lambda>r. NotOk (Some ''User not found'')) ?st) = currentScreen ?st"
    by blast+
  have "\<exists>message. (\<lambda>r. Rejected ''Failed to fetch'') ?req = Rejected message" by simp
  with t [of "\<lambda>r. Rejected ''Failed to fetch''"]
  have c: "matchingResults (callMagic (\<lambda>r. Rejected ''Failed to fetch'') ?st)
             = matchingResults ?st"
    by blast
  from a b c s show ?thesis by (simp only: simp_thms)
qed

lemma push_rating_eq: "push_rating acc e = acc @ override_ratings [e]"
  by (cases e; cases "rtype (snd e)") (simp_all add: push_rating_def override_ratings_def)

lemma foldl_push_rating: "foldl push_rating acc d = acc @ override_ratings d"
proof (induction d arbitrary: acc)
  case Nil
  show ?case by (simp add: override_ratings_def)
next
  case (Cons e d)
  have "foldl push_rating acc (e # d) = foldl push_rating (push_rating acc e) d" by simp
  also have "\<dots> = push_rating acc e @ override_ratings d" by (rule Cons.IH)
  also have "\<dots> = acc @ override_ratings (e # d)"
    by (simp add: push_rating_eq override_ratings_def)
  finally show ?case .
qed

lemma build_user_rating_eq:
  "build_user_rating st u =
     \<lparr> user_id = u,
       ratings = (case Map_get (dayofRatingsByUser st) u of
                    None \<Rightarrow> [] | Some d \<Rightarrow> override_ratings d) \<rparr>"
  by (simp add: build_user_rating_def foldl_push_rating Map_has_get split: option.splits)

lemma callMagic_requests:
  assumes "2 \<le> Set_size (selectedUsers st)"
  shows "requests (callMagic fetch st)
           = requests st @ [MatchingRequest (map (build_user_rating st) (selectedUsers st))]"
  using assms
  by (simp add: callMagic_sends Let_def showAlert_def render_keeps switchScreen_def
        split: response.splits)

text \<open>
  Claim C5. With at least two selected users the request lists the selected users in
  order, and the entry of every selected user carries that user's day-of ratings as the
  override list, restaurant-keyed ones as restaurant id and rating and cuisine-keyed ones
  as cuisine and rating (the empty list for a user without day-of ratings). In the
  resolver of the specification a supplied list, empty or not, is the effective preference
  set whatever the base preferences are, and only an absent override gives the base
  preferences. Every entry built by \<open>callMagic\<close> supplies a list.
\<close>

theorem request_carries_dayof_overrides:
  assumes "2 \<le> Set_size (selectedUsers st)" and "u \<in> set (selectedUsers st)"
  shows "\<exists>urs. requests (callMagic fetch st) = requests st @ [MatchingRequest urs]
           \<and> map user_id urs = selectedUsers st
           \<and> \<lparr> user_id = u,
                ratings = (case Map_get (dayofRatingsByUser st) u of
                             None \<Rightarrow> [] | Some d \<Rightarrow> override_ratings d) \<rparr> \<in> set urs
           \<and> (\<forall>ur \<in> set urs. \<forall>base.
                 effective_preferences (Some (ratings ur)) base = ratings ur)
           \<and> (\<forall>base. effective_preferences None base = base)"
proof -
  let ?urs = "map (build_user_rating st) (selectedUsers st)"
  have "requests (callMagic fetch st) = requests st @ [MatchingRequest ?urs]"
    using assms(1) by (rule callMagic_requests)
  moreover have "map user_id ?urs = selectedUsers st"
    by (simp add: build_user_rating_def comp_def)
  moreover have "build_user_rating st u \<in> set ?urs"
    using assms(2) by simp
  then have "\<lparr> user_id = u,
                ratings = (case Map_get (dayofRatingsByUser st) u of
                             None \<Rightarrow> [] | Some d \<Rightarrow> override_ratings d) \<rparr> \<in> set ?urs"
    by (simp only: build_user_rating_eq)
  moreover have "\<forall>ur \<in> set ?urs. \<forall>base.
                 effective_preferences (Some (ratings ur)) base = ratings ur"
    by (simp add: effective_preferences_def)
  moreover have "\<forall>base. effective_preferences None base = base"
    by (simp add: effective_preferences_def)
  ultimately show ?thesis by blast
qed

theorem request_carries_dayof_overrides_witness:
  "\<exists>urs. requests (callMagic (\<lambda>r. Ok (Some []))
       (initial_state\<lparr>selectedUsers := [7, 8], dayofRatingsByUser :=
          [(7, [(''c-Thai'', \<lparr>rtype = cuisine_type, rid = IdStr ''Thai'', rating = Num 8\<rparr>),
                (''r-4'', \<lparr>rtype = restaurant_type, rid = IdNum 4, rating = Num (5 / 2)\<rparr>)])]\<rparr>))
       = [MatchingRequest urs]
     \<and> \<lparr>user_id = 7, ratings = [CuisineEntry (IdStr ''Thai'') (Num 8),
                                 RestaurantEntry (IdNum 4) (Num (5 / 2))]\<rparr> \<in> set urs
     \<and> effective_preferences
          (Some [CuisineEntry (IdStr ''Thai'') (Num 8), RestaurantEntry (IdNum 4) (Num (5 / 2))])
          [RestaurantEntry (IdNum 1) (Num 3)]
        = [CuisineEntry (IdStr ''Thai'') (Num 8), RestaurantEntry (IdNum 4) (Num (5 / 2))]"
proof -
  let ?d = "[(''c-Thai'', \<lparr>rtype = cuisine_type, rid = IdStr ''Thai'', rating = Num 8\<rparr>),
             (''r-4'', \<lparr>rtype = restaurant_type, rid = IdNum 4, rating = Num (5 / 2)\<rparr>)]"
  let ?st = "initial_state\<lparr>selectedUsers := [7, 8], dayofRatingsByUser := [(7, ?d)]\<rparr>"
  let ?rs = "[CuisineEntry (IdStr ''Thai'') (Num 8), RestaurantEntry (IdNum 4) (Num (5 / 2))]"
  have h1: "2 \<le> Set_size (selectedUsers ?st)" by (simp add: Set_size_def)
  have h2: "7 \<in> set (selectedUsers ?st)" by simp
  have r: "requests ?st = []" by (simp add: initial_state_def)
  have o: "(case Map_get (dayofRatingsByUser ?st) 7 of None \<Rightarrow> [] | Some d \<Rightarrow> override_ratings d)
             = ?rs"
    by (simp add: Map_get_def override_ratings_def)
  from request_carries_dayof_overrides [OF h1 h2, of "\<lambda>r. Ok (Some [])"]
  obtain urs where u:
    "requests (callMagic (\<lambda>r. Ok (Some [])) ?st) = requests ?st @ [MatchingRequest urs]"
    "\<lparr>user_id = 7, ratings = (case Map_get (dayofRatingsByUser ?st) 7 of
                                None \<Rightarrow> [] | Some d \<Rightarrow> override_ratings d)\<rparr> \<in> set urs"
    "\<forall>ur \<in> set urs. \<forall>base. effective_preferences (Some (ratings ur)) base = ratings ur"
    by blast
  from u(1) r have a: "requests (callMagic (\<lambda>r. Ok (Some [])) ?st) = [MatchingRequest urs]"
    by simp
  from u(2) o have b: "\<lparr>user_id = 7, ratings = ?rs\<rparr> \<in> set urs" by simp
  from u(3) b have c: "effective_preferences (Some ?rs) [RestaurantEntry (IdNum 1) (Num 3)] = ?rs"
    by fastforce
  from a b c show ?thesis by blast
qed

section \<open>Cuisine extraction\<close>

lemma set_add_tags:
  "set (foldl (\<lambda>s c. if c \<noteq> [] then Set_add s c else s) s cs) = set s \<union> {c \<in> set cs. c \<noteq> []}"
  by (induction cs arbitrary: s) (auto simp: Set_add_def)

lemma distinct_add_tags:
  "distinct s \<Longrightarrow> distinct (foldl (\<lambda>s c. if c \<noteq> [] then Set_add s c else s) s cs)"
  by (induction cs arbitrary: s) (auto simp: Set_add_def)

lemma cuisine_tags_Cons:
  "cuisine_tags (r # rs)
     = {t. \<exists>p \<in> set (split_comma (cuisine r)). t = trim p \<and> t \<noteq> []} \<union> cuisine_tags rs"
  by (auto simp: cuisine_tags_def)

lemma set_add_restaurant_tags:
  "set (foldl add_restaurant_tags s rs) = set s \<union> cuisine_tags rs"
proof (induction rs arbitrary: s)
  case Nil
  show ?case by (simp add: cuisine_tags_def)
next
  case (Cons r rs)
  have "set (add_restaurant_tags s r)
          = set s \<union> {t. \<exists>p \<in> set (split_comma (cuisine r)). t = trim p \<and> t \<noteq> []}"
    by (auto simp: add_restaurant_tags_def set_add_tags)
  then show ?case by (simp add: Cons.IH cuisine_tags_Cons Un_assoc)
qed

lemma distinct_add_restaurant_tags:
  "distinct s \<Longrightarrow> distinct (foldl add_restaurant_tags s rs)"
  by (induction rs arbitrary: s) (simp_all add: add_restaurant_tags_def distinct_add_tags)

lemma extractCuisines_eq:
  "allCuisines (extractCuisines st) = sort (foldl add_restaurant_tags [] (allRestaurants st))"
  by (simp add: extractCuisines_def)

text \<open>
  Claim C6. The cuisines that \<open>extractCuisines\<close> stores are exactly the cuisine tags of
  the catalog (every restaurant's cuisine string split on commas, each piece trimmed, the
  empty ones dropped, compared as stored), each one once, in sorted order.
\<close>

theorem extractCuisines_deduplicated_tags:
  "set (allCuisines (extractCuisines st)) = cuisine_tags (allRestaurants st)
   \<and> distinct (allCuisines (extractCuisines st))
   \<and> sorted (allCuisines (extractCuisines st))"
  by (simp add: extractCuisines_eq set_add_restaurant_tags distinct_add_restaurant_tags)

theorem extractCuisines_deduplicated_tags_witness:
  "allCuisines (extractCuisines (initial_state\<lparr>allRestaurants :=
          [\<lparr>rest_id = 3, name = ''Bangkok'', cuisine = '' Thai, Vegan ,,thai'', price = 2\<rparr>,
           \<lparr>rest_id = 2, name = ''Green'', cuisine = ''Vegan,Thai'', price = 3\<rparr>]\<rparr>))
     = [''Thai'', ''Vegan'', ''thai'']
   \<and> cuisine_tags
          [\<lparr>rest_id = 3, name = ''Bangkok'', cuisine = '' Thai, Vegan ,,thai'', price = 2\<rparr>,
           \<lparr>rest_id = 2, name = ''Green'', cuisine = ''Vegan,Thai'', price = 3\<rparr>]
     = {''Thai'', ''Vegan'', ''thai''}"
proof -
  let ?rs = "[\<lparr>rest_id = 3, name = ''Bangkok'', cuisine = '' Thai, Vegan ,,thai'', price = 2\<rparr>,
              \<lparr>rest_id = 2, name = ''Green'', cuisine = ''Vegan,Thai'', price = 3\<rparr>]"
  let ?st = "initial_state\<lparr>allRestaurants := ?rs\<rparr>"
  have c: "allCuisines (extractCuisines ?st) = [''Thai'', ''Vegan'', ''thai'']"
    by code_simp
  have "set (allCuisines (extractCuisines ?st)) = cuisine_tags (allRestaurants ?st)"
    using extractCuisines_deduplicated_tags [of ?st] by (rule conjunct1)
  then have "set [''Thai'', ''Vegan'', ''thai''] = cuisine_tags (allRestaurants ?st)"
    by (simp only: c)
  then have "cuisine_tags ?rs = {''Thai'', ''Vegan'', ''thai''}"
    by simp
  with c show ?thesis by (rule conjI)
qed

section \<open>Group scores\<close>

lemma foldl_mult: "foldl (\<lambda>acc x. acc * x) (s::rat) ss = s * prod_list ss"
  by (induction ss arbitrary: s) (simp_all add: mult.assoc)

lemma groupScore_product:
  "contributing effs \<noteq> [] \<Longrightarrow> groupScore effs = Some (prod_list (contributing effs))"
  by (cases "contributing effs") (simp_all add: groupScore_def foldl_mult)

lemma ranked_pair:
  "snd y < snd x \<Longrightarrow> ranked [x, y] = [x, y] \<and> ranked [y, x] = [x, y]"
  by (simp add: ranked_def ranks_before_def)

text \<open>
  Claim C8. For a restaurant with at least one contributor the group score is the product
  of the contributors' effective scores. Scores 9, 9, 9, 9, 1 give 6561 and five scores
  of 6 give 7776, and the ranking puts the all-6 restaurant first whatever the two ids
  and the order of arrival are.
\<close>

theorem group_score_is_product:
  "(contributing effs \<noteq> [] \<longrightarrow> groupScore effs = Some (prod_list (contributing effs)))
   \<and> groupScore [Some 9, Some 9, Some 9, Some 9, Some 1] = Some 6561
   \<and> groupScore [Some 6, Some 6, Some 6, Some 6, Some 6] = Some 7776
   \<and> match_ranking [(a, [Some 9, Some 9, Some 9, Some 9, Some 1]),
                     (b, [Some 6, Some 6, Some 6, Some 6, Some 6])] = [(b, 7776), (a, 6561)]
   \<and> match_ranking [(b, [Some 6, Some 6, Some 6, Some 6, Some 6]),
                     (a, [Some 9, Some 9, Some 9, Some 9, Some 1])] = [(b, 7776), (a, 6561)]"
proof -
  have g1: "groupScore [Some 9, Some 9, Some 9, Some 9, Some 1] = Some 6561"
    by (simp add: groupScore_def contributing_def)
  have g2: "groupScore [Some 6, Some 6, Some 6, Some 6, Some 6] = Some 7776"
    by (simp add: groupScore_def contributing_def)
  have r: "ranked [(b, 7776), (a, 6561)] = [(b, 7776), (a, 6561)]
         \<and> ranked [(a, 6561), (b, 7776)] = [(b, 7776), (a, 6561)]"
    by (rule ranked_pair) simp
  have a1: "aggregate [(a, [Some 9, Some 9, Some 9, Some 9, Some 1]),
                       (b, [Some 6, Some 6, Some 6, Some 6, Some 6])] = [(a, 6561), (b, 7776)]"
    by (simp add: aggregate_def g1 g2)
  have a2: "aggregate [(b, [Some 6, Some 6, Some 6, Some 6, Some 6]),
                       (a, [Some 9, Some 9, Some 9, Some 9, Some 1])] = [(b, 7776), (a, 6561)]"
    by (simp add: aggregate_def g1 g2)
  show ?thesis
    using g1 g2 r by (simp add: groupScore_product match_ranking_def a1 a2)
qed

theorem group_score_is_product_witness:
  "contributing [Some 9, None, Some (5 / 2)] \<noteq> []
   \<and> groupScore [Some 9, None, Some (5 / 2)] = Some (45 / 2)
   \<and> match_ranking [(2, [Some 9, Some 9, Some 9, Some 9, Some 1]),
                     (1, [Some 6, Some 6, Some 6, Some 6, Some 6])] = [(1, 7776), (2, 6561)]"
proof -
  have h: "contributing [Some 9, None, Some (5 / 2)] \<noteq> []"
    by (simp add: contributing_def)
  have p: "prod_list (contributing [Some 9, None, Some (5 / 2)]) = 45 / 2"
    by (simp add: contributing_def)
  from group_score_is_product [of "[Some 9, None, Some (5 / 2)]" 2 1] h p
  show ?thesis by simp
qed

end
